theory Spec2Isabelle
  imports Complex_Main
begin

section \<open>Shared Kubernetes object model\<close>

text \<open>
  Go strings are byte strings and are modelled as \<open>string\<close>. \<open>int\<close>, \<open>int64\<close> and
  \<open>time.Duration\<close> values are only compared and copied by the code below (the one
  subtraction, \<open>Time.Sub\<close>, saturates and is written out), so they are modelled as
  \<open>int\<close>. A \<open>time.Time\<close> is an instant counted in nanoseconds; a \<open>time.Duration\<close>
  is a number of nanoseconds.
\<close>

type_synonym Time = int
type_synonym Duration = int

definition Millisecond :: Duration where
  "Millisecond = 1000000"

definition Second :: Duration where
  "Second = 1000000000"

definition minDuration :: Duration where
  "minDuration = - (2 ^ 63)"

definition maxDuration :: Duration where
  "maxDuration = 2 ^ 63 - 1"

text \<open>
  \<open>Time.Sub\<close> of the Go standard library: the difference \<open>t - u\<close>, replaced by the
  smallest or largest \<open>Duration\<close> when it does not fit into 64 bits.
\<close>

definition Sub :: "Time \<Rightarrow> Time \<Rightarrow> Duration" where
  "Sub t u = (let d = t - u in
     if d < minDuration then minDuration
     else if maxDuration < d then maxDuration
     else d)"

text \<open>
  \<open>Duration.Seconds\<close>: the duration as a number of seconds. The source returns a
  \<open>float64\<close>; the rounding of that conversion is not modelled.
\<close>

definition Seconds :: "Duration \<Rightarrow> real" where
  "Seconds d = real_of_int d / 1000000000"

text \<open>\<open>metav1.ConditionStatus\<close> is a Go string type with three named values.\<close>

type_synonym ConditionStatus = string

definition ConditionTrue :: ConditionStatus where
  "ConditionTrue = ''True''"

definition ConditionFalse :: ConditionStatus where
  "ConditionFalse = ''False''"

definition ConditionUnknown :: ConditionStatus where
  "ConditionUnknown = ''Unknown''"

record Condition =
  Type :: string
  Status :: ConditionStatus
  ObservedGeneration :: int
  LastTransitionTime :: Time
  Reason :: string
  Message :: string

text \<open>
  \<open>meta.FindStatusCondition\<close> of the Kubernetes API machinery: a pointer to the first
  condition of the list that has the given type, \<open>nil\<close> when there is none.
\<close>

fun FindStatusCondition :: "Condition list \<Rightarrow> string \<Rightarrow> Condition option" where
  "FindStatusCondition [] conditionType = None"
| "FindStatusCondition (c # cs) conditionType =
     (if Type c = conditionType then Some c else FindStatusCondition cs conditionType)"

record ObjectMeta =
  meta_Name :: string
  meta_Namespace :: string
  meta_Generation :: int

section \<open>Scheduler framework: the namespace affinity plugin\<close>

text \<open>
  Modelled from the spec: the status codes and the status value of the scheduler
  framework (package \<open>framework\<close>), of which only the callers are at hand. A status is
  \<open>{code, pluginName, message, cause?}\<close>; the constructor for non-error outcomes takes
  (code, pluginName, reason). A \<open>nil\<close> status pointer is \<open>None\<close>.
\<close>

datatype StatusCode = Success | Skip | ClusterUnschedulable | InternalError

record FrameworkStatus =
  code :: StatusCode
  pluginName :: string
  message :: string
  cause :: "string option"

definition NewNonErrorStatus :: "StatusCode \<Rightarrow> string \<Rightarrow> string \<Rightarrow> FrameworkStatus" where
  "NewNonErrorStatus c sourcePlugin reason =
     \<lparr>code = c, pluginName = sourcePlugin, message = reason, cause = None\<rparr>"

text \<open>The plugin carries its name; the framework handle is not read by the filters.\<close>

record Plugin =
  plugin_name :: string

definition Name :: "Plugin \<Rightarrow> string" where
  "Name p = plugin_name p"

text \<open>
  \<open>PolicySnapshotObj\<close> is an interface with two implementations; both embed an
  \<open>ObjectMeta\<close>, and \<open>GetNamespace\<close> reads its namespace field.
\<close>

datatype PolicySnapshotObj =
  ClusterSchedulingPolicySnapshot ObjectMeta
| SchedulingPolicySnapshot ObjectMeta

fun ps_ObjectMeta :: "PolicySnapshotObj \<Rightarrow> ObjectMeta" where
  "ps_ObjectMeta (ClusterSchedulingPolicySnapshot m) = m"
| "ps_ObjectMeta (SchedulingPolicySnapshot m) = m"

definition GetNamespace :: "PolicySnapshotObj \<Rightarrow> string" where
  "GetNamespace ps = meta_Namespace (ps_ObjectMeta ps)"

text \<open>
  The status of a member cluster: its conditions and its namespace inventory, a Go map
  from namespace name to work name, which may be \<open>nil\<close> (\<open>None\<close>).
\<close>

record MemberClusterStatus =
  mc_Conditions :: "Condition list"
  mc_Namespaces :: "(string \<rightharpoonup> string) option"

record MemberCluster =
  mc_ObjectMeta :: ObjectMeta
  mc_Status :: MemberClusterStatus

definition PreFilter :: "Plugin \<Rightarrow> PolicySnapshotObj \<Rightarrow> FrameworkStatus option" where
  "PreFilter p ps =
     (let nsName = GetNamespace ps in
      if nsName = ''''
      then Some (NewNonErrorStatus Skip (Name p)
             ''cluster-scoped placement does not require namespace affinity filtering'')
      else None)"

text \<open>
  The condition type \<open>propertyprovider.NamespaceCollectionSucceededCondType\<close> is a
  constant of a package that is not at hand; \<open>Filter\<close> takes it as its first argument.
  The cluster is the object behind the pointer the framework passes, which is not \<open>nil\<close>.
\<close>

definition Filter ::
  "string \<Rightarrow> Plugin \<Rightarrow> PolicySnapshotObj \<Rightarrow> MemberCluster \<Rightarrow> FrameworkStatus option" where
  "Filter NamespaceCollectionSucceededCondType p ps cluster =
     (let nsName = GetNamespace ps in
      case FindStatusCondition (mc_Conditions (mc_Status cluster))
             NamespaceCollectionSucceededCondType of
        None \<Rightarrow> None
      | Some cond \<Rightarrow>
         (case mc_Namespaces (mc_Status cluster) of
            None \<Rightarrow> Some (NewNonErrorStatus ClusterUnschedulable (Name p)
                      ''cluster has no namespace information available'')
          | Some namespaces \<Rightarrow>
             (case namespaces nsName of
                None \<Rightarrow> Some (NewNonErrorStatus ClusterUnschedulable (Name p)
                          ''target namespace does not exist on cluster'')
              | Some w \<Rightarrow> None)))"

section \<open>Hub metrics\<close>

text \<open>
  A metric vector of the Prometheus client keeps one metric per tuple of label values,
  given in the order of the vector's variable labels. It is modelled as a map from the
  list of label values to the metric: a gauge is its value, a histogram is the list of
  the samples observed so far (bucket counts, sum and count are functions of it).
\<close>

type_synonym 'v MetricVec = "string list \<rightharpoonup> 'v"

record HubMetrics =
  FleetUpdateRunStatusLastTimestampSeconds :: "real MetricVec"
  FleetUpdateRunApprovalRequestLatencySeconds :: "(real list) MetricVec"
  FleetUpdateRunStageClusterUpdatingDurationSeconds :: "(real list) MetricVec"

text \<open>The variable labels the three vectors are created with.\<close>

definition FleetUpdateRunStatusLastTimestampSeconds_labels :: "string list" where
  "FleetUpdateRunStatusLastTimestampSeconds_labels =
     [''namespace'', ''name'', ''state'', ''condition'', ''status'', ''reason'']"

definition FleetUpdateRunApprovalRequestLatencySeconds_labels :: "string list" where
  "FleetUpdateRunApprovalRequestLatencySeconds_labels = [''namespace'', ''name'', ''taskType'']"

definition FleetUpdateRunStageClusterUpdatingDurationSeconds_labels :: "string list" where
  "FleetUpdateRunStageClusterUpdatingDurationSeconds_labels = [''namespace'', ''name'']"

text \<open>The samples a histogram vector holds for a tuple of label values, none when absent.\<close>

definition samples :: "(real list) MetricVec \<Rightarrow> string list \<Rightarrow> real list" where
  "samples vec lvs = (case vec lvs of None \<Rightarrow> [] | Some xs \<Rightarrow> xs)"

text \<open>
  \<open>utf8.ValidString\<close> of the Go standard library, on the bytes of the string: ASCII
  bytes stand alone; a lead byte C2..DF takes one continuation byte (80..BF), E0..EF
  two and F0..F4 three, where the first of them is narrowed after E0 (A0..BF), ED
  (80..9F), F0 (90..BF) and F4 (80..8F); every other byte is invalid.
\<close>

definition continuationByte :: "nat \<Rightarrow> bool" where
  "continuationByte b \<longleftrightarrow> 0x80 \<le> b \<and> b \<le> 0xBF"

fun validBytes :: "nat list \<Rightarrow> bool" where
  "validBytes [] = True"
| "validBytes (b # bs) =
     (if b < 0x80 then validBytes bs
      else if 0xC2 \<le> b \<and> b \<le> 0xDF then
        (case bs of
           c1 # rest \<Rightarrow> continuationByte c1 \<and> validBytes rest
         | _ \<Rightarrow> False)
      else if 0xE0 \<le> b \<and> b \<le> 0xEF then
        (case bs of
           c1 # c2 # rest \<Rightarrow>
             (if b = 0xE0 then 0xA0 \<le> c1 \<and> c1 \<le> 0xBF
              else if b = 0xED then 0x80 \<le> c1 \<and> c1 \<le> 0x9F
              else continuationByte c1)
             \<and> continuationByte c2 \<and> validBytes rest
         | _ \<Rightarrow> False)
      else if 0xF0 \<le> b \<and> b \<le> 0xF4 then
        (case bs of
           c1 # c2 # c3 # rest \<Rightarrow>
             (if b = 0xF0 then 0x90 \<le> c1 \<and> c1 \<le> 0xBF
              else if b = 0xF4 then 0x80 \<le> c1 \<and> c1 \<le> 0x8F
              else continuationByte c1)
             \<and> continuationByte c2 \<and> continuationByte c3 \<and> validBytes rest
         | _ \<Rightarrow> False)
      else False)"

definition ValidString :: "string \<Rightarrow> bool" where
  "ValidString s = validBytes (map of_char s)"

text \<open>
  \<open>validateLabelValues\<close> of the Prometheus client: the number of label values is the
  number of variable labels, and every label value is valid UTF-8.
\<close>

definition validateLabelValues :: "string list \<Rightarrow> nat \<Rightarrow> bool" where
  "validateLabelValues vals expectedNumberOfValues \<longleftrightarrow>
     length vals = expectedNumberOfValues \<and> list_all ValidString vals"

text \<open>
  \<open>vec.WithLabelValues(lvs...).Observe(v)\<close>: the histogram for the label values is
  created empty when the vector has none, and the sample is added to it. The library
  panics (\<open>None\<close>) when the label values do not pass \<open>validateLabelValues\<close>.
\<close>

definition WithLabelValues_Observe ::
  "string list \<Rightarrow> string list \<Rightarrow> real \<Rightarrow> (real list) MetricVec \<Rightarrow> (real list) MetricVec option" where
  "WithLabelValues_Observe variableLabels lvs v vec =
     (if \<not> validateLabelValues lvs (length variableLabels) then None
      else Some (vec(lvs \<mapsto> samples vec lvs @ [v])))"

text \<open>
  \<open>vec.WithLabelValues(lvs...).SetToCurrentTime()\<close>: the gauge for the label values is
  created when the vector has none and set to the current Unix time in seconds. The
  gauge is only used with label values that are fields of a stored update run and of
  its conditions (namespace, name, state, condition status and reason), which the API
  server validates; of the library's checks the model keeps the count of the label
  values here.
\<close>

definition WithLabelValues_SetToCurrentTime ::
  "string list \<Rightarrow> Time \<Rightarrow> string list \<Rightarrow> real MetricVec \<Rightarrow> real MetricVec option" where
  "WithLabelValues_SetToCurrentTime variableLabels now lvs vec =
     (if length lvs \<noteq> length variableLabels then None
      else Some (vec(lvs \<mapsto> Seconds now)))"




section \<open>Update run metrics\<close>

text \<open>
  Modelled from the spec: the condition types of the placement API (package
  \<open>placementv1beta1\<close>), which the metric emitters only name. The run's conditions are
  Succeeded, Progressing and Initialized; a stage task's approval conditions are
  ApprovalRequestCreated and ApprovalRequestApproved.
\<close>

definition StagedUpdateRunConditionInitialized :: string where
  "StagedUpdateRunConditionInitialized = ''Initialized''"

definition StagedUpdateRunConditionProgressing :: string where
  "StagedUpdateRunConditionProgressing = ''Progressing''"

definition StagedUpdateRunConditionSucceeded :: string where
  "StagedUpdateRunConditionSucceeded = ''Succeeded''"

definition StageTaskConditionApprovalRequestCreated :: string where
  "StageTaskConditionApprovalRequestCreated = ''ApprovalRequestCreated''"

definition StageTaskConditionApprovalRequestApproved :: string where
  "StageTaskConditionApprovalRequestApproved = ''ApprovalRequestApproved''"

text \<open>
  \<open>UpdateRunObj\<close> is an interface; the emitters read the object's metadata, the state
  of its spec (a Go string type) and the conditions of its status.
\<close>

record UpdateRun =
  ur_ObjectMeta :: ObjectMeta
  ur_State :: string
  ur_Conditions :: "Condition list"

definition ur_GetNamespace :: "UpdateRun \<Rightarrow> string" where
  "ur_GetNamespace updateRun = meta_Namespace (ur_ObjectMeta updateRun)"

definition ur_GetName :: "UpdateRun \<Rightarrow> string" where
  "ur_GetName updateRun = meta_Name (ur_ObjectMeta updateRun)"

definition ur_GetGeneration :: "UpdateRun \<Rightarrow> int" where
  "ur_GetGeneration updateRun = meta_Generation (ur_ObjectMeta updateRun)"

record StageTaskStatus =
  st_Conditions :: "Condition list"

record StageUpdatingStatus =
  StartTime :: "Time option"

text \<open>
  Modelled from the spec: \<open>condition.IsConditionStatusTrue\<close> of package
  \<open>pkg/utils/condition\<close>, which is not at hand. A condition counts when it is present,
  currently true and carries the given generation (the spec's "both are currently true
  and both carry the run's current generation"; the comment at the call says the same).
\<close>

definition IsConditionStatusTrue :: "Condition option \<Rightarrow> int \<Rightarrow> bool" where
  "IsConditionStatusTrue cond latestGeneration =
     (case cond of
        None \<Rightarrow> False
      | Some c \<Rightarrow> Status c = ConditionTrue \<and> ObservedGeneration c = latestGeneration)"


text \<open>
  The three blocks of the source are tried in the order Succeeded, Progressing,
  Initialized; each one that does not return falls through to the next, so the later
  blocks are bound first.
\<close>

definition emitUpdateRunStatusMetric :: "Time \<Rightarrow> UpdateRun \<Rightarrow> HubMetrics \<Rightarrow> HubMetrics option" where
  "emitUpdateRunStatusMetric now updateRun m =
     (let generation = ur_GetGeneration updateRun;
          state = ur_State updateRun;
          conditions = ur_Conditions updateRun;
          emit = (\<lambda>conditionType c.
            map_option (\<lambda>vec. m\<lparr>FleetUpdateRunStatusLastTimestampSeconds := vec\<rparr>)
              (WithLabelValues_SetToCurrentTime FleetUpdateRunStatusLastTimestampSeconds_labels now
                 [ur_GetNamespace updateRun, ur_GetName updateRun, state,
                  conditionType, Status c, Reason c]
                 (FleetUpdateRunStatusLastTimestampSeconds m)));
          afterInitialized = Some m;
          afterProgressing =
            (case FindStatusCondition conditions StagedUpdateRunConditionInitialized of
               None \<Rightarrow> afterInitialized
             | Some initializedCond \<Rightarrow>
                 if ObservedGeneration initializedCond = generation
                 then emit StagedUpdateRunConditionInitialized initializedCond
                 else afterInitialized);
          afterSucceeded =
            (case FindStatusCondition conditions StagedUpdateRunConditionProgressing of
               None \<Rightarrow> afterProgressing
             | Some progressingCond \<Rightarrow>
                 if ObservedGeneration progressingCond = generation
                 then emit StagedUpdateRunConditionProgressing progressingCond
                 else afterProgressing)
      in case FindStatusCondition conditions StagedUpdateRunConditionSucceeded of
           None \<Rightarrow> afterSucceeded
         | Some succeedCond \<Rightarrow>
             if ObservedGeneration succeedCond = generation
             then emit StagedUpdateRunConditionSucceeded succeedCond
             else afterSucceeded)"

text \<open>
  After the guard both pointers are dereferenced; a \<open>nil\<close> one there would panic.
\<close>

definition recordApprovalRequestLatency ::
  "StageTaskStatus \<Rightarrow> UpdateRun \<Rightarrow> string \<Rightarrow> HubMetrics \<Rightarrow> HubMetrics option" where
  "recordApprovalRequestLatency stageTaskStatus updateRun taskType m =
     (let approvalCreatedCond =
            FindStatusCondition (st_Conditions stageTaskStatus)
              StageTaskConditionApprovalRequestCreated;
          approvalApprovedCond =
            FindStatusCondition (st_Conditions stageTaskStatus)
              StageTaskConditionApprovalRequestApproved
      in if \<not> IsConditionStatusTrue approvalCreatedCond (ur_GetGeneration updateRun)
            \<or> \<not> IsConditionStatusTrue approvalApprovedCond (ur_GetGeneration updateRun)
         then Some m
         else (case (approvalApprovedCond, approvalCreatedCond) of
                 (Some approved, Some created) \<Rightarrow>
                   (let latencySeconds =
                          Seconds (Sub (LastTransitionTime approved) (LastTransitionTime created))
                    in map_option (\<lambda>vec. m\<lparr>FleetUpdateRunApprovalRequestLatencySeconds := vec\<rparr>)
                         (WithLabelValues_Observe FleetUpdateRunApprovalRequestLatencySeconds_labels
                            [ur_GetNamespace updateRun, ur_GetName updateRun, taskType]
                            latencySeconds
                            (FleetUpdateRunApprovalRequestLatencySeconds m)))
               | _ \<Rightarrow> None))"

text \<open>\<open>time.Since(t)\<close> is \<open>time.Now().Sub(t)\<close>; the clock reading is the argument \<open>now\<close>.\<close>

definition recordStageClusterUpdatingDuration ::
  "Time \<Rightarrow> StageUpdatingStatus \<Rightarrow> UpdateRun \<Rightarrow> HubMetrics \<Rightarrow> HubMetrics option" where
  "recordStageClusterUpdatingDuration now stageStatus updateRun m =
     (case StartTime stageStatus of
        None \<Rightarrow> Some m
      | Some startTime \<Rightarrow>
          (let durationSeconds = Seconds (Sub now startTime)
           in map_option (\<lambda>vec. m\<lparr>FleetUpdateRunStageClusterUpdatingDurationSeconds := vec\<rparr>)
                (WithLabelValues_Observe FleetUpdateRunStageClusterUpdatingDurationSeconds_labels
                   [ur_GetNamespace updateRun, ur_GetName updateRun]
                   durationSeconds
                   (FleetUpdateRunStageClusterUpdatingDurationSeconds m))))"

section \<open>Hub agent options\<close>

record RateLimitOptions =
  RateLimiterBaseDelay :: Duration
  RateLimiterMaxDelay :: Duration
  RateLimiterQPS :: int
  RateLimiterBucketSize :: int

text \<open>
  The conversion of a Go \<open>int\<close> (64 bits) to \<open>float64\<close>: exact up to \<open>2 ^ 53\<close> in
  absolute value; above, the value is rounded to 53 significant bits, to the nearest
  and on a tie to the even one. \<open>bitLen\<close> is the number of bits of a natural number.
\<close>

fun bitLen :: "nat \<Rightarrow> nat" where
  "bitLen n = (if n = 0 then 0 else Suc (bitLen (n div 2)))"

declare bitLen.simps [simp del]

definition float64_of_int :: "int \<Rightarrow> real" where
  "float64_of_int x =
     (let a = nat \<bar>x\<bar> in
      if a \<le> 2 ^ 53 then real_of_int x
      else
        let e = bitLen a - 53;
            q = a div 2 ^ e;
            r = a mod 2 ^ e;
            h = 2 ^ (e - 1);
            q' = (if h < r \<or> (r = h \<and> odd q) then q + 1 else q)
        in real_of_int (sgn x * int (q' * 2 ^ e)))"

text \<open>
  The rate limiter of the work queue, as the tree of constructor calls that builds it:
  the per-item exponential limiter (base delay, max delay), the token bucket
  (\<open>rate.Limit\<close> is a \<open>float64\<close>, then the burst) and the maximum of a list of limiters.
  \<open>rate.Limit(opts.RateLimiterQPS)\<close> converts the QPS to \<open>float64\<close>.
\<close>

datatype RateLimiter =
  ItemExponentialFailureRateLimiter Duration Duration
| BucketRateLimiter real int
| MaxOfRateLimiter "RateLimiter list"

definition DefaultControllerRateLimiter :: "RateLimitOptions \<Rightarrow> RateLimiter" where
  "DefaultControllerRateLimiter opts0 =
     (let opts1 = (if RateLimiterBaseDelay opts0 \<le> 0
                   then opts0\<lparr>RateLimiterBaseDelay := 5 * Millisecond\<rparr> else opts0);
          opts2 = (if RateLimiterMaxDelay opts1 \<le> 0
                   then opts1\<lparr>RateLimiterMaxDelay := 60 * Second\<rparr> else opts1);
          opts3 = (if RateLimiterQPS opts2 \<le> 0
                   then opts2\<lparr>RateLimiterQPS := 10\<rparr> else opts2);
          opts = (if RateLimiterBucketSize opts3 \<le> 0
                  then opts3\<lparr>RateLimiterBucketSize := 100\<rparr> else opts3)
      in MaxOfRateLimiter
           [ItemExponentialFailureRateLimiter (RateLimiterBaseDelay opts) (RateLimiterMaxDelay opts),
            BucketRateLimiter (float64_of_int (RateLimiterQPS opts)) (RateLimiterBucketSize opts)])"

text \<open>\<open>metav1.Duration\<close> wraps a \<open>time.Duration\<close>.\<close>

record MetaDuration =
  Duration :: Duration

text \<open>
  The flag value of the work-pending grace period is a pointer to the option's field:
  the constructor stores the default through it, \<open>Set\<close> stores through it again. \<open>Set\<close>
  returns the error (\<open>None\<close> is \<open>nil\<close>) and the field; its warning log line is left out.
\<close>

definition newWorkPendingGracePeriodValueWithValidation :: "Duration \<Rightarrow> MetaDuration \<Rightarrow> MetaDuration" where
  "newWorkPendingGracePeriodValueWithValidation defaultVal p = p\<lparr>Duration := defaultVal\<rparr>"

definition WorkPendingGracePeriodValueWithValidation_Set ::
  "string \<Rightarrow> MetaDuration \<Rightarrow> string option \<times> MetaDuration" where
  "WorkPendingGracePeriodValueWithValidation_Set s v = (None, v\<lparr>Duration := 15 * Second\<rparr>)"

text \<open>
  The options \<open>Validate\<close> reads. \<open>HubQPS\<close> is a \<open>float64\<close>, modelled as a real number
  (no NaN); the other fields of the option groups are not read by \<open>Validate\<close>. The
  burst is converted to \<open>float64\<close> for its comparison with the QPS.
\<close>

record ControllerManagerOptions =
  HubQPS :: real
  HubBurst :: int

record WebhookOptions =
  EnableWebhooks :: bool
  ServiceName :: string
  EnableWorkload :: bool
  UseCertManager :: bool

record PlacementManagementOptions =
  WorkPendingGracePeriod :: MetaDuration
  SkippedPropagatingAPIs :: string
  AllowedPropagatingAPIs :: string
  PlacementControllerWorkQueueRateLimiterOpts :: RateLimitOptions

record Options =
  CtrlMgrOpts :: ControllerManagerOptions
  WebhookOpts :: WebhookOptions
  PlacementMgmtOpts :: PlacementManagementOptions

text \<open>
  \<open>field.Path\<close> and \<open>field.Error\<close> of the Kubernetes validation library: a path is the
  list of its names from the root, \<open>field.Invalid\<close> builds an error of type invalid
  from the path, the offending value and a detail message.
\<close>

type_synonym Path = "string list"

definition NewPath :: "string \<Rightarrow> Path" where
  "NewPath n = [n]"

definition Child :: "Path \<Rightarrow> string \<Rightarrow> Path" where
  "Child p n = p @ [n]"

datatype BadValue = IntValue int | StringValue string | BoolValue bool | DurationValue Duration

datatype ErrorType = ErrorTypeInvalid

record FieldError =
  err_Type :: ErrorType
  Field :: Path
  err_BadValue :: BadValue
  Detail :: string

definition Invalid :: "Path \<Rightarrow> BadValue \<Rightarrow> string \<Rightarrow> FieldError" where
  "Invalid p v d = \<lparr>err_Type = ErrorTypeInvalid, Field = p, err_BadValue = v, Detail = d\<rparr>"

definition Validate :: "Options \<Rightarrow> FieldError list" where
  "Validate opts =
     (let errs0 = [];
          newPath = NewPath ''Options'';
          rl = PlacementControllerWorkQueueRateLimiterOpts (PlacementMgmtOpts opts);
          errs1 = (if float64_of_int (HubBurst (CtrlMgrOpts opts)) < HubQPS (CtrlMgrOpts opts)
                   then errs0 @ [Invalid (Child newPath ''HubBurst'')
                           (IntValue (HubBurst (CtrlMgrOpts opts)))
                           ''The burst limit for client-side throttling must be greater than or equal to its QPS limit'']
                   else errs0);
          errs2 = (if EnableWebhooks (WebhookOpts opts) \<and> ServiceName (WebhookOpts opts) = ''''
                   then errs1 @ [Invalid (Child newPath ''WebhookServiceName'')
                           (StringValue (ServiceName (WebhookOpts opts)))
                           ''A webhook service name is required when webhooks are enabled'']
                   else errs1);
          errs3 = (if UseCertManager (WebhookOpts opts) \<and> \<not> EnableWorkload (WebhookOpts opts)
                   then errs2 @ [Invalid (Child newPath ''UseCertManager'')
                           (BoolValue (UseCertManager (WebhookOpts opts)))
                           ''If cert manager is used for securing webhook connections, the EnableWorkload option must be set to true, so that cert manager pods can run in the hub cluster.'']
                   else errs2);
          errs4 = (if AllowedPropagatingAPIs (PlacementMgmtOpts opts) \<noteq> ''''
                      \<and> SkippedPropagatingAPIs (PlacementMgmtOpts opts) \<noteq> ''''
                   then errs3 @ [Invalid (Child newPath ''AllowedPropagatingAPIs'')
                           (StringValue (AllowedPropagatingAPIs (PlacementMgmtOpts opts)))
                           ''AllowedPropagatingAPIs and SkippedPropagatingAPIs options are mutually exclusive'']
                   else errs3);
          errs5 = (if RateLimiterBaseDelay rl \<ge> RateLimiterMaxDelay rl
                   then errs4 @ [Invalid
                           (Child (Child newPath ''PlacementControllerWorkQueueRateLimiterOpts'') ''RateLimiterBaseDelay'')
                           (DurationValue (RateLimiterBaseDelay rl))
                           ''the base delay for the placement controller set rate limiter must be less than its max delay'']
                   else errs4)
      in if RateLimiterQPS rl > RateLimiterBucketSize rl
         then errs5 @ [Invalid
                 (Child (Child newPath ''PlacementControllerWorkQueueRateLimiterOpts'') ''RateLimiterQPS'')
                 (IntValue (RateLimiterQPS rl))
                 ''the QPS for the placement controller set rate limiter must be less than its bucket size'']
         else errs5)"

section \<open>Reference definitions and sample objects\<close>

text \<open>
  The label values of the status series that reports condition \<open>c\<close> of the given type
  for an update run.
\<close>

definition statusSeries :: "UpdateRun \<Rightarrow> string \<Rightarrow> Condition \<Rightarrow> string list" where
  "statusSeries updateRun conditionType c =
     [ur_GetNamespace updateRun, ur_GetName updateRun, ur_State updateRun,
      conditionType, Status c, Reason c]"

text \<open>
  The reading of the status metric in the words of the specification, for comparison
  with \<open>emitUpdateRunStatusMetric\<close>: the first condition among the given types that
  is true and carries the current generation is the one reported.
\<close>

fun spec_firstTrueCurrent ::
  "Condition list \<Rightarrow> int \<Rightarrow> string list \<Rightarrow> (string \<times> Condition) option" where
  "spec_firstTrueCurrent conds generation [] = None"
| "spec_firstTrueCurrent conds generation (ty # tys) =
     (case FindStatusCondition conds ty of
        None \<Rightarrow> spec_firstTrueCurrent conds generation tys
      | Some c \<Rightarrow>
          if Status c = ConditionTrue \<and> ObservedGeneration c = generation then Some (ty, c)
          else spec_firstTrueCurrent conds generation tys)"

definition spec_emitUpdateRunStatusMetric :: "Time \<Rightarrow> UpdateRun \<Rightarrow> HubMetrics \<Rightarrow> HubMetrics option" where
  "spec_emitUpdateRunStatusMetric now updateRun m =
     (case spec_firstTrueCurrent (ur_Conditions updateRun) (ur_GetGeneration updateRun)
             [StagedUpdateRunConditionSucceeded, StagedUpdateRunConditionProgressing,
              StagedUpdateRunConditionInitialized] of
        None \<Rightarrow> Some m
      | Some (ty, c) \<Rightarrow>
          Some (m\<lparr>FleetUpdateRunStatusLastTimestampSeconds :=
                   (FleetUpdateRunStatusLastTimestampSeconds m)
                     (statusSeries updateRun ty c \<mapsto> Seconds now)\<rparr>))"

text \<open>The field paths of the two rate limiter errors of \<open>Validate\<close>.\<close>

definition RateLimiterBaseDelay_path :: Path where
  "RateLimiterBaseDelay_path =
     [''Options'', ''PlacementControllerWorkQueueRateLimiterOpts'', ''RateLimiterBaseDelay'']"

definition RateLimiterQPS_path :: Path where
  "RateLimiterQPS_path =
     [''Options'', ''PlacementControllerWorkQueueRateLimiterOpts'', ''RateLimiterQPS'']"

text \<open>
  Sample objects, after the cases of the plugin's unit tests: the plugin with its
  default name, a namespace-scoped and a cluster-scoped snapshot, and member clusters
  built from a condition list and an inventory.
\<close>

definition test_plugin :: Plugin where
  "test_plugin = \<lparr>plugin_name = ''NamespaceAffinity''\<rparr>"

definition test_collection_cond_type :: string where
  "test_collection_cond_type = ''NamespaceCollectionSucceeded''"

definition test_namespaced_snapshot :: PolicySnapshotObj where
  "test_namespaced_snapshot = SchedulingPolicySnapshot
     \<lparr>meta_Name = ''test-policy'', meta_Namespace = ''test-namespace'', meta_Generation = 0\<rparr>"

definition test_cluster_snapshot :: PolicySnapshotObj where
  "test_cluster_snapshot = ClusterSchedulingPolicySnapshot
     \<lparr>meta_Name = ''test-policy'', meta_Namespace = '''', meta_Generation = 0\<rparr>"

definition test_collection_cond :: "ConditionStatus \<Rightarrow> Condition" where
  "test_collection_cond s =
     \<lparr>Type = ''NamespaceCollectionSucceeded'', Status = s, ObservedGeneration = 0,
      LastTransitionTime = 0, Reason = '''', Message = ''''\<rparr>"

definition test_member_cluster ::
  "Condition list \<Rightarrow> (string \<rightharpoonup> string) option \<Rightarrow> MemberCluster" where
  "test_member_cluster conds namespaces =
     \<lparr>mc_ObjectMeta = \<lparr>meta_Name = ''cluster-1'', meta_Namespace = '''', meta_Generation = 0\<rparr>,
      mc_Status = \<lparr>mc_Conditions = conds, mc_Namespaces = namespaces\<rparr>\<rparr>"

definition test_inventory_other :: "string \<rightharpoonup> string" where
  "test_inventory_other = [''other-namespace'' \<mapsto> ''work-1'']"

definition test_inventory_empty_work :: "string \<rightharpoonup> string" where
  "test_inventory_empty_work = [''test-namespace'' \<mapsto> '''']"

text \<open>Sample metric states, update runs and stage tasks.\<close>

definition no_metrics :: HubMetrics where
  "no_metrics =
     \<lparr>FleetUpdateRunStatusLastTimestampSeconds = Map.empty,
      FleetUpdateRunApprovalRequestLatencySeconds = Map.empty,
      FleetUpdateRunStageClusterUpdatingDurationSeconds = Map.empty\<rparr>"

definition test_condition :: "string \<Rightarrow> ConditionStatus \<Rightarrow> int \<Rightarrow> Time \<Rightarrow> string \<Rightarrow> Condition" where
  "test_condition ty s g t r =
     \<lparr>Type = ty, Status = s, ObservedGeneration = g, LastTransitionTime = t,
      Reason = r, Message = ''''\<rparr>"

definition test_update_run :: "string \<Rightarrow> int \<Rightarrow> Condition list \<Rightarrow> UpdateRun" where
  "test_update_run n g conds =
     \<lparr>ur_ObjectMeta = \<lparr>meta_Name = n, meta_Namespace = ''ns-1'', meta_Generation = g\<rparr>,
      ur_State = ''Run'', ur_Conditions = conds\<rparr>"

definition approved_task :: StageTaskStatus where
  "approved_task = \<lparr>st_Conditions =
     [test_condition ''ApprovalRequestCreated'' ''True'' 1 (100 * Second) ''Created'',
      test_condition ''ApprovalRequestApproved'' ''True'' 1 (190 * Second) ''Approved'']\<rparr>"

definition stale_task :: StageTaskStatus where
  "stale_task = \<lparr>st_Conditions =
     [test_condition ''ApprovalRequestCreated'' ''True'' 1 (100 * Second) ''Created'',
      test_condition ''ApprovalRequestApproved'' ''True'' 0 (190 * Second) ''Approved'']\<rparr>"

definition latency_metrics :: "real list \<Rightarrow> HubMetrics" where
  "latency_metrics xs = no_metrics\<lparr>FleetUpdateRunApprovalRequestLatencySeconds :=
     Map.empty([''ns-1'', ''run-1'', ''Approval''] \<mapsto> xs)\<rparr>"

definition stage_metrics :: "real list \<Rightarrow> HubMetrics" where
  "stage_metrics xs = no_metrics\<lparr>FleetUpdateRunStageClusterUpdatingDurationSeconds :=
     Map.empty([''ns-1'', ''run-1''] \<mapsto> xs)\<rparr>"

definition status_metrics :: "string list \<Rightarrow> real \<Rightarrow> HubMetrics" where
  "status_metrics lvs v =
     no_metrics\<lparr>FleetUpdateRunStatusLastTimestampSeconds := Map.empty(lvs \<mapsto> v)\<rparr>"

definition failed_run :: UpdateRun where
  "failed_run = test_update_run ''run-1'' 1
     [test_condition ''Initialized'' ''True'' 1 (10 * Second) ''UpdateRunInitializedSuccessfully'',
      test_condition ''Progressing'' ''False'' 1 (50 * Second) ''UpdateRunFailed'',
      test_condition ''Succeeded'' ''False'' 1 (50 * Second) ''UpdateRunFailed'']"

definition progressing_run :: UpdateRun where
  "progressing_run = test_update_run ''run-1'' 2
     [test_condition ''Initialized'' ''True'' 2 (10 * Second) ''UpdateRunInitializedSuccessfully'',
      test_condition ''Progressing'' ''True'' 2 (20 * Second) ''UpdateRunProgressing'',
      test_condition ''Succeeded'' ''True'' 1 (5 * Second) ''UpdateRunSucceeded'']"

definition stale_run :: UpdateRun where
  "stale_run = test_update_run ''run-1'' 2
     [test_condition ''Initialized'' ''True'' 1 (10 * Second) ''UpdateRunInitializedSuccessfully'']"


text \<open>
  The options of the validation unit tests (\<open>newTestOptions\<close>), and the same options
  with other rate limiter settings.
\<close>

definition newTestOptions :: Options where
  "newTestOptions =
     \<lparr>CtrlMgrOpts = \<lparr>HubQPS = 250, HubBurst = 1000\<rparr>,
      WebhookOpts = \<lparr>EnableWebhooks = False, ServiceName = ''test-webhook'',
                     EnableWorkload = False, UseCertManager = False\<rparr>,
      PlacementMgmtOpts =
        \<lparr>WorkPendingGracePeriod = \<lparr>Duration = 0\<rparr>,
         SkippedPropagatingAPIs = ''fleet.azure.com;multicluster.x-k8s.io'',
         AllowedPropagatingAPIs = '''',
         PlacementControllerWorkQueueRateLimiterOpts =
           \<lparr>RateLimiterBaseDelay = 5 * Millisecond, RateLimiterMaxDelay = 60 * Second,
            RateLimiterQPS = 10, RateLimiterBucketSize = 100\<rparr>\<rparr>\<rparr>"

definition withRateLimitOptions :: "RateLimitOptions \<Rightarrow> Options \<Rightarrow> Options" where
  "withRateLimitOptions rl opts =
     opts\<lparr>PlacementMgmtOpts :=
            (PlacementMgmtOpts opts)\<lparr>PlacementControllerWorkQueueRateLimiterOpts := rl\<rparr>\<rparr>"

section \<open>Auxiliary facts\<close>

lemmas test_defs = test_plugin_def test_collection_cond_type_def test_namespaced_snapshot_def
  test_cluster_snapshot_def test_collection_cond_def test_member_cluster_def
  test_inventory_other_def test_inventory_empty_work_def

lemmas run_defs = no_metrics_def test_condition_def test_update_run_def approved_task_def
  stale_task_def latency_metrics_def stage_metrics_def status_metrics_def failed_run_def
  progressing_run_def stale_run_def

lemmas cond_type_defs = StagedUpdateRunConditionInitialized_def
  StagedUpdateRunConditionProgressing_def StagedUpdateRunConditionSucceeded_def
  StageTaskConditionApprovalRequestCreated_def StageTaskConditionApprovalRequestApproved_def
  ConditionTrue_def ConditionFalse_def ConditionUnknown_def

lemmas ur_defs = ur_GetNamespace_def ur_GetName_def ur_GetGeneration_def

lemma FindStatusCondition_None_iff:
  "FindStatusCondition cs ty = None \<longleftrightarrow> (\<forall>c \<in> set cs. Type c \<noteq> ty)"
  by (induction cs) auto

lemma FindStatusCondition_Some_type:
  "FindStatusCondition cs ty = Some c \<Longrightarrow> c \<in> set cs \<and> Type c = ty"
  by (induction cs) (auto split: if_splits)

text \<open>Within the range of a \<open>Duration\<close> (about 292 years) \<open>Sub\<close> is the exact difference.\<close>

lemma Sub_exact:
  "minDuration \<le> t - u \<Longrightarrow> t - u \<le> maxDuration \<Longrightarrow> Sub t u = t - u"
  by (simp add: Sub_def Let_def)

lemma Sub_bounds: "minDuration \<le> Sub t u \<and> Sub t u \<le> maxDuration"
  by (simp add: Sub_def Let_def minDuration_def maxDuration_def)

lemma Sub_test: "Sub (190 * Second) (100 * Second) = 90 * Second"
  by (simp add: Sub_def Let_def Second_def minDuration_def maxDuration_def)

lemma Seconds_test: "Seconds (90 * Second) = 90"
  by (simp add: Seconds_def Second_def)

lemma Seconds_minute: "Seconds (60 * Second) = 60"
  by (simp add: Seconds_def Second_def)

text \<open>The label values of the sample objects are valid UTF-8; the byte FF is not.\<close>

lemma test_labels_valid:
  "ValidString ''ns-1''" "ValidString ''run-1''" "ValidString ''Approval''"
  by (simp_all add: ValidString_def)

lemma byte_FF_invalid: "\<not> ValidString [CHR 0xFF]"
  by (simp add: ValidString_def)

text \<open>The conversion to \<open>float64\<close> is exact up to \<open>2 ^ 53\<close> and rounds just above it.\<close>

lemma float64_of_int_exact: "\<bar>x\<bar> \<le> 2 ^ 53 \<Longrightarrow> float64_of_int x = real_of_int x"
  by (simp add: float64_of_int_def Let_def nat_le_iff)

lemma bitLen_above_53: "bitLen 9007199254740993 = 54"
  by (simp add: bitLen.simps)

lemma float64_of_int_rounds: "float64_of_int 9007199254740993 = 9007199254740992"
  by (simp add: float64_of_int_def Let_def bitLen_above_53)

text \<open>Observing a sample always changes the vector, and so the metric state.\<close>

lemma observe_changes:
  "vec(lvs \<mapsto> samples vec lvs @ [v]) \<noteq> vec"
proof
  assume "vec(lvs \<mapsto> samples vec lvs @ [v]) = vec"
  then have "(vec(lvs \<mapsto> samples vec lvs @ [v])) lvs = vec lvs" by simp
  then show False by (cases "vec lvs") (simp_all add: samples_def)
qed

lemma latency_update_changes:
  "m\<lparr>FleetUpdateRunApprovalRequestLatencySeconds :=
       (FleetUpdateRunApprovalRequestLatencySeconds m)
         (lvs \<mapsto> samples (FleetUpdateRunApprovalRequestLatencySeconds m) lvs @ [v])\<rparr> \<noteq> m"
proof
  assume "m\<lparr>FleetUpdateRunApprovalRequestLatencySeconds :=
       (FleetUpdateRunApprovalRequestLatencySeconds m)
         (lvs \<mapsto> samples (FleetUpdateRunApprovalRequestLatencySeconds m) lvs @ [v])\<rparr> = m"
  then have "FleetUpdateRunApprovalRequestLatencySeconds
       (m\<lparr>FleetUpdateRunApprovalRequestLatencySeconds :=
          (FleetUpdateRunApprovalRequestLatencySeconds m)
            (lvs \<mapsto> samples (FleetUpdateRunApprovalRequestLatencySeconds m) lvs @ [v])\<rparr>)
      = FleetUpdateRunApprovalRequestLatencySeconds m" by simp
  then show False using observe_changes by simp
qed

lemma stage_update_changes:
  "m\<lparr>FleetUpdateRunStageClusterUpdatingDurationSeconds :=
       (FleetUpdateRunStageClusterUpdatingDurationSeconds m)
         (lvs \<mapsto> samples (FleetUpdateRunStageClusterUpdatingDurationSeconds m) lvs @ [v])\<rparr> \<noteq> m"
proof
  assume "m\<lparr>FleetUpdateRunStageClusterUpdatingDurationSeconds :=
       (FleetUpdateRunStageClusterUpdatingDurationSeconds m)
         (lvs \<mapsto> samples (FleetUpdateRunStageClusterUpdatingDurationSeconds m) lvs @ [v])\<rparr> = m"
  then have "FleetUpdateRunStageClusterUpdatingDurationSeconds
       (m\<lparr>FleetUpdateRunStageClusterUpdatingDurationSeconds :=
          (FleetUpdateRunStageClusterUpdatingDurationSeconds m)
            (lvs \<mapsto> samples (FleetUpdateRunStageClusterUpdatingDurationSeconds m) lvs @ [v])\<rparr>)
      = FleetUpdateRunStageClusterUpdatingDurationSeconds m" by simp
  then show False using observe_changes by simp
qed

text \<open>The two outcomes of \<open>recordApprovalRequestLatency\<close>: guard passed, guard failed.\<close>

lemma recordApprovalRequestLatency_open:
  assumes "FindStatusCondition (st_Conditions sts) StageTaskConditionApprovalRequestCreated = Some created"
    and "FindStatusCondition (st_Conditions sts) StageTaskConditionApprovalRequestApproved = Some approved"
    and "Status created = ConditionTrue" and "ObservedGeneration created = ur_GetGeneration ur"
    and "Status approved = ConditionTrue" and "ObservedGeneration approved = ur_GetGeneration ur"
    and "list_all ValidString [ur_GetNamespace ur, ur_GetName ur, tt]"
  shows "recordApprovalRequestLatency sts ur tt m = Some
     (m\<lparr>FleetUpdateRunApprovalRequestLatencySeconds :=
          (FleetUpdateRunApprovalRequestLatencySeconds m)
            ([ur_GetNamespace ur, ur_GetName ur, tt] \<mapsto>
               samples (FleetUpdateRunApprovalRequestLatencySeconds m)
                 [ur_GetNamespace ur, ur_GetName ur, tt]
               @ [Seconds (Sub (LastTransitionTime approved) (LastTransitionTime created))])\<rparr>)"
  using assms
  by (simp add: recordApprovalRequestLatency_def IsConditionStatusTrue_def Let_def
      WithLabelValues_Observe_def validateLabelValues_def
      FleetUpdateRunApprovalRequestLatencySeconds_labels_def)

lemma recordApprovalRequestLatency_invalid:
  assumes "FindStatusCondition (st_Conditions sts) StageTaskConditionApprovalRequestCreated = Some created"
    and "FindStatusCondition (st_Conditions sts) StageTaskConditionApprovalRequestApproved = Some approved"
    and "Status created = ConditionTrue" and "ObservedGeneration created = ur_GetGeneration ur"
    and "Status approved = ConditionTrue" and "ObservedGeneration approved = ur_GetGeneration ur"
    and "\<not> list_all ValidString [ur_GetNamespace ur, ur_GetName ur, tt]"
  shows "recordApprovalRequestLatency sts ur tt m = None"
  using assms
  by (simp add: recordApprovalRequestLatency_def IsConditionStatusTrue_def Let_def
      WithLabelValues_Observe_def validateLabelValues_def
      FleetUpdateRunApprovalRequestLatencySeconds_labels_def)

lemma recordApprovalRequestLatency_closed:
  assumes "\<not> (\<exists>created approved.
      FindStatusCondition (st_Conditions sts) StageTaskConditionApprovalRequestCreated = Some created
    \<and> FindStatusCondition (st_Conditions sts) StageTaskConditionApprovalRequestApproved = Some approved
    \<and> Status created = ConditionTrue \<and> ObservedGeneration created = ur_GetGeneration ur
    \<and> Status approved = ConditionTrue \<and> ObservedGeneration approved = ur_GetGeneration ur)"
  shows "recordApprovalRequestLatency sts ur tt m = Some m"
  using assms
  by (auto simp: recordApprovalRequestLatency_def IsConditionStatusTrue_def Let_def
      split: option.splits)

lemma recordApprovalRequestLatency_approved_task:
  "recordApprovalRequestLatency approved_task (test_update_run ''run-1'' 1 []) ''Approval''
     (latency_metrics xs) = Some (latency_metrics (xs @ [90]))"
  by (simp add: recordApprovalRequestLatency_def IsConditionStatusTrue_def Let_def
      WithLabelValues_Observe_def validateLabelValues_def test_labels_valid
      FleetUpdateRunApprovalRequestLatencySeconds_labels_def
      samples_def run_defs cond_type_defs ur_defs Sub_test Seconds_test)

text \<open>The outcomes of \<open>emitUpdateRunStatusMetric\<close>, block by block.\<close>

lemma emit_Succeeded:
  assumes "FindStatusCondition (ur_Conditions ur) StagedUpdateRunConditionSucceeded = Some c"
    and "ObservedGeneration c = ur_GetGeneration ur"
  shows "emitUpdateRunStatusMetric now ur m =
     Some (m\<lparr>FleetUpdateRunStatusLastTimestampSeconds :=
              (FleetUpdateRunStatusLastTimestampSeconds m)
                (statusSeries ur StagedUpdateRunConditionSucceeded c \<mapsto> Seconds now)\<rparr>)"
  using assms
  by (simp add: emitUpdateRunStatusMetric_def Let_def WithLabelValues_SetToCurrentTime_def
      FleetUpdateRunStatusLastTimestampSeconds_labels_def statusSeries_def)

lemma emit_Progressing:
  assumes "\<not> (\<exists>s. FindStatusCondition (ur_Conditions ur) StagedUpdateRunConditionSucceeded = Some s
              \<and> ObservedGeneration s = ur_GetGeneration ur)"
    and "FindStatusCondition (ur_Conditions ur) StagedUpdateRunConditionProgressing = Some c"
    and "ObservedGeneration c = ur_GetGeneration ur"
  shows "emitUpdateRunStatusMetric now ur m =
     Some (m\<lparr>FleetUpdateRunStatusLastTimestampSeconds :=
              (FleetUpdateRunStatusLastTimestampSeconds m)
                (statusSeries ur StagedUpdateRunConditionProgressing c \<mapsto> Seconds now)\<rparr>)"
  using assms
  by (simp add: emitUpdateRunStatusMetric_def Let_def WithLabelValues_SetToCurrentTime_def
      FleetUpdateRunStatusLastTimestampSeconds_labels_def statusSeries_def
      split: option.splits)

lemma emit_Initialized:
  assumes "\<not> (\<exists>s. FindStatusCondition (ur_Conditions ur) StagedUpdateRunConditionSucceeded = Some s
              \<and> ObservedGeneration s = ur_GetGeneration ur)"
    and "\<not> (\<exists>s. FindStatusCondition (ur_Conditions ur) StagedUpdateRunConditionProgressing = Some s
              \<and> ObservedGeneration s = ur_GetGeneration ur)"
    and "FindStatusCondition (ur_Conditions ur) StagedUpdateRunConditionInitialized = Some c"
    and "ObservedGeneration c = ur_GetGeneration ur"
  shows "emitUpdateRunStatusMetric now ur m =
     Some (m\<lparr>FleetUpdateRunStatusLastTimestampSeconds :=
              (FleetUpdateRunStatusLastTimestampSeconds m)
                (statusSeries ur StagedUpdateRunConditionInitialized c \<mapsto> Seconds now)\<rparr>)"
  using assms
  by (simp add: emitUpdateRunStatusMetric_def Let_def WithLabelValues_SetToCurrentTime_def
      FleetUpdateRunStatusLastTimestampSeconds_labels_def statusSeries_def
      split: option.splits)

lemma emit_none:
  assumes "\<not> (\<exists>s. FindStatusCondition (ur_Conditions ur) StagedUpdateRunConditionSucceeded = Some s
              \<and> ObservedGeneration s = ur_GetGeneration ur)"
    and "\<not> (\<exists>s. FindStatusCondition (ur_Conditions ur) StagedUpdateRunConditionProgressing = Some s
              \<and> ObservedGeneration s = ur_GetGeneration ur)"
    and "\<not> (\<exists>s. FindStatusCondition (ur_Conditions ur) StagedUpdateRunConditionInitialized = Some s
              \<and> ObservedGeneration s = ur_GetGeneration ur)"
  shows "emitUpdateRunStatusMetric now ur m = Some m"
  using assms
  by (simp add: emitUpdateRunStatusMetric_def Let_def split: option.splits)




text \<open>
  \<open>Validate\<close> appends at most one error per check, in the order of the checks; the
  list of errors is the concatenation of six optional errors.
\<close>

lemma if_snoc: "(if c then xs @ [e] else xs) = xs @ (if c then [e] else [])"
  by simp

lemma bex_if_singleton: "(\<exists>e \<in> set (if c then [x] else []). P e) \<longleftrightarrow> c \<and> P x"
  by (cases c) simp_all

lemma ball_if_singleton: "(\<forall>e \<in> set (if c then [x] else []). P e) \<longleftrightarrow> (c \<longrightarrow> P x)"
  by (cases c) simp_all

lemma Field_Invalid: "Field (Invalid p v d) = p"
  by (simp add: Invalid_def)

lemma Detail_Invalid: "Detail (Invalid p v d) = d"
  by (simp add: Invalid_def)

lemma Validate_append:
  "Validate opts =
     (if float64_of_int (HubBurst (CtrlMgrOpts opts)) < HubQPS (CtrlMgrOpts opts)
      then [Invalid (Child (NewPath ''Options'') ''HubBurst'')
              (IntValue (HubBurst (CtrlMgrOpts opts)))
              ''The burst limit for client-side throttling must be greater than or equal to its QPS limit'']
      else [])
   @ (if EnableWebhooks (WebhookOpts opts) \<and> ServiceName (WebhookOpts opts) = ''''
      then [Invalid (Child (NewPath ''Options'') ''WebhookServiceName'')
              (StringValue (ServiceName (WebhookOpts opts)))
              ''A webhook service name is required when webhooks are enabled'']
      else [])
   @ (if UseCertManager (WebhookOpts opts) \<and> \<not> EnableWorkload (WebhookOpts opts)
      then [Invalid (Child (NewPath ''Options'') ''UseCertManager'')
              (BoolValue (UseCertManager (WebhookOpts opts)))
              ''If cert manager is used for securing webhook connections, the EnableWorkload option must be set to true, so that cert manager pods can run in the hub cluster.'']
      else [])
   @ (if AllowedPropagatingAPIs (PlacementMgmtOpts opts) \<noteq> ''''
         \<and> SkippedPropagatingAPIs (PlacementMgmtOpts opts) \<noteq> ''''
      then [Invalid (Child (NewPath ''Options'') ''AllowedPropagatingAPIs'')
              (StringValue (AllowedPropagatingAPIs (PlacementMgmtOpts opts)))
              ''AllowedPropagatingAPIs and SkippedPropagatingAPIs options are mutually exclusive'']
      else [])
   @ (if RateLimiterBaseDelay (PlacementControllerWorkQueueRateLimiterOpts (PlacementMgmtOpts opts))
          \<ge> RateLimiterMaxDelay (PlacementControllerWorkQueueRateLimiterOpts (PlacementMgmtOpts opts))
      then [Invalid
              (Child (Child (NewPath ''Options'') ''PlacementControllerWorkQueueRateLimiterOpts'')
                 ''RateLimiterBaseDelay'')
              (DurationValue (RateLimiterBaseDelay
                 (PlacementControllerWorkQueueRateLimiterOpts (PlacementMgmtOpts opts))))
              ''the base delay for the placement controller set rate limiter must be less than its max delay'']
      else [])
   @ (if RateLimiterQPS (PlacementControllerWorkQueueRateLimiterOpts (PlacementMgmtOpts opts))
          > RateLimiterBucketSize (PlacementControllerWorkQueueRateLimiterOpts (PlacementMgmtOpts opts))
      then [Invalid
              (Child (Child (NewPath ''Options'') ''PlacementControllerWorkQueueRateLimiterOpts'')
                 ''RateLimiterQPS'')
              (IntValue (RateLimiterQPS
                 (PlacementControllerWorkQueueRateLimiterOpts (PlacementMgmtOpts opts))))
              ''the QPS for the placement controller set rate limiter must be less than its bucket size'']
      else [])"
  apply (simp only: Validate_def if_snoc)
  apply (simp only: Let_def append_Nil append_assoc)
  done

lemma paths:
  "Child (NewPath ''Options'') ''HubBurst'' = [''Options'', ''HubBurst'']"
  "Child (NewPath ''Options'') ''WebhookServiceName'' = [''Options'', ''WebhookServiceName'']"
  "Child (NewPath ''Options'') ''UseCertManager'' = [''Options'', ''UseCertManager'']"
  "Child (NewPath ''Options'') ''AllowedPropagatingAPIs'' = [''Options'', ''AllowedPropagatingAPIs'']"
  "Child (Child (NewPath ''Options'') ''PlacementControllerWorkQueueRateLimiterOpts'')
     ''RateLimiterBaseDelay'' = RateLimiterBaseDelay_path"
  "Child (Child (NewPath ''Options'') ''PlacementControllerWorkQueueRateLimiterOpts'')
     ''RateLimiterQPS'' = RateLimiterQPS_path"
  by (simp_all add: NewPath_def Child_def RateLimiterBaseDelay_path_def RateLimiterQPS_path_def)

lemma path_distinct:
  "[''Options'', ''HubBurst''] \<noteq> RateLimiterBaseDelay_path"
  "[''Options'', ''WebhookServiceName''] \<noteq> RateLimiterBaseDelay_path"
  "[''Options'', ''UseCertManager''] \<noteq> RateLimiterBaseDelay_path"
  "[''Options'', ''AllowedPropagatingAPIs''] \<noteq> RateLimiterBaseDelay_path"
  "RateLimiterQPS_path \<noteq> RateLimiterBaseDelay_path"
  "[''Options'', ''HubBurst''] \<noteq> RateLimiterQPS_path"
  "[''Options'', ''WebhookServiceName''] \<noteq> RateLimiterQPS_path"
  "[''Options'', ''UseCertManager''] \<noteq> RateLimiterQPS_path"
  "[''Options'', ''AllowedPropagatingAPIs''] \<noteq> RateLimiterQPS_path"
  "RateLimiterBaseDelay_path \<noteq> RateLimiterQPS_path"
  by (simp_all add: RateLimiterBaseDelay_path_def RateLimiterQPS_path_def)

lemma Validate_BaseDelay_iff:
  "(\<exists>e \<in> set (Validate opts). Field e = RateLimiterBaseDelay_path) \<longleftrightarrow>
      RateLimiterBaseDelay (PlacementControllerWorkQueueRateLimiterOpts (PlacementMgmtOpts opts))
        \<ge> RateLimiterMaxDelay (PlacementControllerWorkQueueRateLimiterOpts (PlacementMgmtOpts opts))"
  by (simp only: Validate_append set_append bex_Un bex_if_singleton Field_Invalid paths
      path_distinct simp_thms)

lemma Validate_QPS_iff:
  "(\<exists>e \<in> set (Validate opts). Field e = RateLimiterQPS_path) \<longleftrightarrow>
      RateLimiterQPS (PlacementControllerWorkQueueRateLimiterOpts (PlacementMgmtOpts opts))
        > RateLimiterBucketSize (PlacementControllerWorkQueueRateLimiterOpts (PlacementMgmtOpts opts))"
  by (simp only: Validate_append set_append bex_Un bex_if_singleton Field_Invalid paths
      path_distinct simp_thms)

lemma Validate_QPS_detail:
  "\<forall>e \<in> set (Validate opts). Field e = RateLimiterQPS_path \<longrightarrow>
     Detail e = ''the QPS for the placement controller set rate limiter must be less than its bucket size''"
  by (simp only: Validate_append set_append ball_Un ball_if_singleton Field_Invalid
      Detail_Invalid paths path_distinct simp_thms)

lemma rl_of_withRateLimitOptions:
  "PlacementControllerWorkQueueRateLimiterOpts (PlacementMgmtOpts (withRateLimitOptions rl opts)) = rl"
  "CtrlMgrOpts (withRateLimitOptions rl opts) = CtrlMgrOpts opts"
  "WebhookOpts (withRateLimitOptions rl opts) = WebhookOpts opts"
  "AllowedPropagatingAPIs (PlacementMgmtOpts (withRateLimitOptions rl opts))
     = AllowedPropagatingAPIs (PlacementMgmtOpts opts)"
  "SkippedPropagatingAPIs (PlacementMgmtOpts (withRateLimitOptions rl opts))
     = SkippedPropagatingAPIs (PlacementMgmtOpts opts)"
  by (simp_all add: withRateLimitOptions_def)

lemma newTestOptions_fields:
  "HubQPS (CtrlMgrOpts newTestOptions) = 250"
  "HubBurst (CtrlMgrOpts newTestOptions) = 1000"
  "float64_of_int 1000 = 1000"
  "EnableWebhooks (WebhookOpts newTestOptions) = False"
  "UseCertManager (WebhookOpts newTestOptions) = False"
  "AllowedPropagatingAPIs (PlacementMgmtOpts newTestOptions) = ''''"
  by (simp_all add: newTestOptions_def float64_of_int_exact)

section \<open>The namespace affinity plugin\<close>

text \<open>
  C1. For every policy snapshot with target namespace \<open>N\<close> and every member cluster,
  \<open>Filter\<close> returns: \<open>nil\<close> when no condition of the cluster has the
  namespace-collection type; the ClusterUnschedulable status with reason "cluster has no
  namespace information available" when such a condition is present, whatever its
  status, and the inventory is \<open>nil\<close>; the ClusterUnschedulable status with reason
  "target namespace does not exist on cluster" when the condition is present, the
  inventory is not \<open>nil\<close> and \<open>N\<close> is not one of its keys; and \<open>nil\<close> when the
  condition is present and \<open>N\<close> is a key of the inventory, whatever it maps to.
\<close>

theorem Filter_outcomes:
  "((\<forall>c \<in> set (mc_Conditions (mc_Status cluster)). Type c \<noteq> ct) \<longrightarrow>
      Filter ct p ps cluster = None)
   \<and> ((\<exists>c \<in> set (mc_Conditions (mc_Status cluster)). Type c = ct)
        \<and> mc_Namespaces (mc_Status cluster) = None \<longrightarrow>
      Filter ct p ps cluster =
        Some (NewNonErrorStatus ClusterUnschedulable (Name p)
                ''cluster has no namespace information available''))
   \<and> (\<forall>inv. (\<exists>c \<in> set (mc_Conditions (mc_Status cluster)). Type c = ct)
        \<and> mc_Namespaces (mc_Status cluster) = Some inv
        \<and> GetNamespace ps \<notin> dom inv \<longrightarrow>
      Filter ct p ps cluster =
        Some (NewNonErrorStatus ClusterUnschedulable (Name p)
                ''target namespace does not exist on cluster''))
   \<and> (\<forall>inv. (\<exists>c \<in> set (mc_Conditions (mc_Status cluster)). Type c = ct)
        \<and> mc_Namespaces (mc_Status cluster) = Some inv
        \<and> GetNamespace ps \<in> dom inv \<longrightarrow>
      Filter ct p ps cluster = None)"
proof (cases "FindStatusCondition (mc_Conditions (mc_Status cluster)) ct")
  case None
  then have "\<forall>c \<in> set (mc_Conditions (mc_Status cluster)). Type c \<noteq> ct"
    by (simp add: FindStatusCondition_None_iff)
  with None show ?thesis
    by (auto simp: Filter_def)
next
  case (Some cond)
  then have "\<exists>c \<in> set (mc_Conditions (mc_Status cluster)). Type c = ct"
    using FindStatusCondition_Some_type by blast
  with Some show ?thesis
    by (auto simp: Filter_def Let_def split: option.splits)
qed

theorem Filter_outcomes_witness:
  "mc_Conditions (mc_Status (test_member_cluster [] None)) = []
   \<and> Filter test_collection_cond_type test_plugin test_namespaced_snapshot
        (test_member_cluster [] None) = None
   \<and> (\<exists>c \<in> set (mc_Conditions (mc_Status
          (test_member_cluster [test_collection_cond ConditionFalse] None))).
        Type c = test_collection_cond_type)
   \<and> Filter test_collection_cond_type test_plugin test_namespaced_snapshot
        (test_member_cluster [test_collection_cond ConditionFalse] None) =
      Some (NewNonErrorStatus ClusterUnschedulable ''NamespaceAffinity''
              ''cluster has no namespace information available'')
   \<and> Filter test_collection_cond_type test_plugin test_namespaced_snapshot
        (test_member_cluster [test_collection_cond ConditionTrue] None) =
      Some (NewNonErrorStatus ClusterUnschedulable ''NamespaceAffinity''
              ''cluster has no namespace information available'')
   \<and> GetNamespace test_namespaced_snapshot \<notin> dom test_inventory_other
   \<and> Filter test_collection_cond_type test_plugin test_namespaced_snapshot
        (test_member_cluster [test_collection_cond ConditionTrue] (Some test_inventory_other)) =
      Some (NewNonErrorStatus ClusterUnschedulable ''NamespaceAffinity''
              ''target namespace does not exist on cluster'')
   \<and> GetNamespace test_namespaced_snapshot \<in> dom test_inventory_empty_work
   \<and> Filter test_collection_cond_type test_plugin test_namespaced_snapshot
        (test_member_cluster [test_collection_cond ConditionTrue]
           (Some test_inventory_empty_work)) = None"
  using
    Filter_outcomes [of "test_member_cluster [] None" test_collection_cond_type
      test_plugin test_namespaced_snapshot]
    Filter_outcomes [of "test_member_cluster [test_collection_cond ConditionFalse] None"
      test_collection_cond_type test_plugin test_namespaced_snapshot]
    Filter_outcomes [of "test_member_cluster [test_collection_cond ConditionTrue] None"
      test_collection_cond_type test_plugin test_namespaced_snapshot]
    Filter_outcomes [of
      "test_member_cluster [test_collection_cond ConditionTrue] (Some test_inventory_other)"
      test_collection_cond_type test_plugin test_namespaced_snapshot]
    Filter_outcomes [of
      "test_member_cluster [test_collection_cond ConditionTrue] (Some test_inventory_empty_work)"
      test_collection_cond_type test_plugin test_namespaced_snapshot]
  by (simp add: test_defs GetNamespace_def Name_def)

text \<open>
  C2. For every policy snapshot, \<open>PreFilter\<close> returns a Skip status exactly when the
  snapshot's namespace is the empty string (a cluster-scoped snapshot), and \<open>nil\<close> for
  every snapshot with a namespace; a status it returns never has the code InternalError
  and never carries a cause.
\<close>

theorem PreFilter_skip_iff:
  "((\<exists>st. PreFilter p ps = Some st \<and> code st = Skip) \<longleftrightarrow> GetNamespace ps = '''')
   \<and> (GetNamespace ps = '''' \<longrightarrow>
        PreFilter p ps = Some (NewNonErrorStatus Skip (Name p)
          ''cluster-scoped placement does not require namespace affinity filtering''))
   \<and> (GetNamespace ps \<noteq> '''' \<longrightarrow> PreFilter p ps = None)
   \<and> (\<forall>st. PreFilter p ps = Some st \<longrightarrow> code st \<noteq> InternalError \<and> cause st = None)"
  by (auto simp: PreFilter_def NewNonErrorStatus_def Let_def)

theorem PreFilter_skip_iff_witness:
  "GetNamespace test_cluster_snapshot = ''''
   \<and> PreFilter test_plugin test_cluster_snapshot =
       Some (NewNonErrorStatus Skip ''NamespaceAffinity''
         ''cluster-scoped placement does not require namespace affinity filtering'')
   \<and> GetNamespace test_namespaced_snapshot \<noteq> ''''
   \<and> PreFilter test_plugin test_namespaced_snapshot = None"
  using PreFilter_skip_iff [of test_plugin test_cluster_snapshot]
    PreFilter_skip_iff [of test_plugin test_namespaced_snapshot]
  by (simp add: test_defs GetNamespace_def Name_def)

section \<open>Update run metrics: approval latency\<close>

text \<open>
  C3. On label values that are valid UTF-8, \<open>recordApprovalRequestLatency\<close> adds a
  sample exactly when the stage task has an ApprovalRequestCreated and an
  ApprovalRequestApproved condition that are both true and both carry the run's current
  generation. The sample goes to the series of the run's namespace, the run's name and
  the task type, and its value is the difference, in seconds, between the last
  transition time of the approved condition and that of the created condition (as
  \<open>Time.Sub\<close> computes it). When a condition is missing, not true or stale, the metric
  state is returned unchanged, whatever the label values are. When both conditions pass
  and a label value is not valid UTF-8, the call panics and nothing is recorded.
\<close>

theorem recordApprovalRequestLatency_gate:
  "(list_all ValidString [ur_GetNamespace ur, ur_GetName ur, tt] \<longrightarrow>
      recordApprovalRequestLatency sts ur tt m = Some
       (case (FindStatusCondition (st_Conditions sts) StageTaskConditionApprovalRequestCreated,
              FindStatusCondition (st_Conditions sts) StageTaskConditionApprovalRequestApproved) of
          (Some created, Some approved) \<Rightarrow>
            if Status created = ConditionTrue \<and> ObservedGeneration created = ur_GetGeneration ur
               \<and> Status approved = ConditionTrue \<and> ObservedGeneration approved = ur_GetGeneration ur
            then m\<lparr>FleetUpdateRunApprovalRequestLatencySeconds :=
                     (FleetUpdateRunApprovalRequestLatencySeconds m)
                       ([ur_GetNamespace ur, ur_GetName ur, tt] \<mapsto>
                          samples (FleetUpdateRunApprovalRequestLatencySeconds m)
                            [ur_GetNamespace ur, ur_GetName ur, tt]
                          @ [Seconds (Sub (LastTransitionTime approved)
                                          (LastTransitionTime created))])\<rparr>
            else m
        | _ \<Rightarrow> m))
   \<and> ((\<exists>m'. recordApprovalRequestLatency sts ur tt m = Some m' \<and> m' \<noteq> m) \<longleftrightarrow>
        list_all ValidString [ur_GetNamespace ur, ur_GetName ur, tt]
        \<and> (\<exists>created approved.
             FindStatusCondition (st_Conditions sts) StageTaskConditionApprovalRequestCreated
               = Some created
           \<and> FindStatusCondition (st_Conditions sts) StageTaskConditionApprovalRequestApproved
               = Some approved
           \<and> Status created = ConditionTrue \<and> ObservedGeneration created = ur_GetGeneration ur
           \<and> Status approved = ConditionTrue \<and> ObservedGeneration approved = ur_GetGeneration ur))
   \<and> (\<not> (\<exists>created approved.
             FindStatusCondition (st_Conditions sts) StageTaskConditionApprovalRequestCreated
               = Some created
           \<and> FindStatusCondition (st_Conditions sts) StageTaskConditionApprovalRequestApproved
               = Some approved
           \<and> Status created = ConditionTrue \<and> ObservedGeneration created = ur_GetGeneration ur
           \<and> Status approved = ConditionTrue \<and> ObservedGeneration approved = ur_GetGeneration ur)
       \<longrightarrow> recordApprovalRequestLatency sts ur tt m = Some m)
   \<and> ((\<exists>created approved.
             FindStatusCondition (st_Conditions sts) StageTaskConditionApprovalRequestCreated
               = Some created
           \<and> FindStatusCondition (st_Conditions sts) StageTaskConditionApprovalRequestApproved
               = Some approved
           \<and> Status created = ConditionTrue \<and> ObservedGeneration created = ur_GetGeneration ur
           \<and> Status approved = ConditionTrue \<and> ObservedGeneration approved = ur_GetGeneration ur)
        \<and> \<not> list_all ValidString [ur_GetNamespace ur, ur_GetName ur, tt]
       \<longrightarrow> recordApprovalRequestLatency sts ur tt m = None)"
proof (cases "\<exists>created approved.
      FindStatusCondition (st_Conditions sts) StageTaskConditionApprovalRequestCreated = Some created
    \<and> FindStatusCondition (st_Conditions sts) StageTaskConditionApprovalRequestApproved = Some approved
    \<and> Status created = ConditionTrue \<and> ObservedGeneration created = ur_GetGeneration ur
    \<and> Status approved = ConditionTrue \<and> ObservedGeneration approved = ur_GetGeneration ur")
  case True
  then obtain created approved where
    h: "FindStatusCondition (st_Conditions sts) StageTaskConditionApprovalRequestCreated = Some created"
       "FindStatusCondition (st_Conditions sts) StageTaskConditionApprovalRequestApproved = Some approved"
       "Status created = ConditionTrue" "ObservedGeneration created = ur_GetGeneration ur"
       "Status approved = ConditionTrue" "ObservedGeneration approved = ur_GetGeneration ur"
    by blast
  show ?thesis
  proof (cases "list_all ValidString [ur_GetNamespace ur, ur_GetName ur, tt]")
    case valid: True
    note r = recordApprovalRequestLatency_open [OF h valid, of m]
    have "\<exists>m'. recordApprovalRequestLatency sts ur tt m = Some m' \<and> m' \<noteq> m"
      unfolding r using latency_update_changes by simp
    with True valid r h show ?thesis by simp
  next
    case invalid: False
    note r = recordApprovalRequestLatency_invalid [OF h invalid, of m]
    from True invalid r show ?thesis by simp
  qed
next
  case False
  note r = recordApprovalRequestLatency_closed [OF False, of tt m]
  from False r show ?thesis
    by (auto split: option.splits)
qed

theorem recordApprovalRequestLatency_gate_witness:
  "list_all ValidString [''ns-1'', ''run-1'', ''Approval'']
   \<and> recordApprovalRequestLatency approved_task (test_update_run ''run-1'' 1 []) ''Approval'' no_metrics
     = Some (latency_metrics [90])
   \<and> recordApprovalRequestLatency stale_task (test_update_run ''run-1'' 1 []) ''Approval'' no_metrics
     = Some no_metrics
   \<and> \<not> list_all ValidString [''ns-1'', ''run-1'', [CHR 0xFF]]
   \<and> recordApprovalRequestLatency approved_task (test_update_run ''run-1'' 1 []) [CHR 0xFF] no_metrics
     = None
   \<and> recordApprovalRequestLatency stale_task (test_update_run ''run-1'' 1 []) [CHR 0xFF] no_metrics
     = Some no_metrics"
  using recordApprovalRequestLatency_gate [of "test_update_run ''run-1'' 1 []"
      "''Approval''" approved_task no_metrics]
    recordApprovalRequestLatency_gate [of "test_update_run ''run-1'' 1 []"
      "''Approval''" stale_task no_metrics]
    recordApprovalRequestLatency_gate [of "test_update_run ''run-1'' 1 []"
      "[CHR 0xFF]" approved_task no_metrics]
    recordApprovalRequestLatency_gate [of "test_update_run ''run-1'' 1 []"
      "[CHR 0xFF]" stale_task no_metrics]
  by (simp add: run_defs cond_type_defs ur_defs samples_def Sub_test Seconds_test
      test_labels_valid byte_FF_invalid)

text \<open>
  C4, as amended. \<open>recordApprovalRequestLatency\<close> keeps no record of what it has
  emitted: on label values that are valid UTF-8 and a stage task whose two approval
  conditions are true at the run's current generation, every call adds one sample, so a
  second call on the same, unchanged task state adds a second sample of the same value.
  The metric receives at most one sample per generation and task only when the function
  is called once for them. With the second call adding nothing, as the property was
  first put, it fails: the task recorded twice further down shows it.
\<close>

theorem recordApprovalRequestLatency_every_call:
  "(\<forall>created approved.
      FindStatusCondition (st_Conditions sts) StageTaskConditionApprovalRequestCreated = Some created
    \<and> FindStatusCondition (st_Conditions sts) StageTaskConditionApprovalRequestApproved = Some approved
    \<and> Status created = ConditionTrue \<and> ObservedGeneration created = ur_GetGeneration ur
    \<and> Status approved = ConditionTrue \<and> ObservedGeneration approved = ur_GetGeneration ur
    \<and> list_all ValidString [ur_GetNamespace ur, ur_GetName ur, tt]
    \<longrightarrow> (\<exists>m1 m2.
          recordApprovalRequestLatency sts ur tt m = Some m1
        \<and> recordApprovalRequestLatency sts ur tt m1 = Some m2
        \<and> samples (FleetUpdateRunApprovalRequestLatencySeconds m1)
            [ur_GetNamespace ur, ur_GetName ur, tt]
          = samples (FleetUpdateRunApprovalRequestLatencySeconds m)
              [ur_GetNamespace ur, ur_GetName ur, tt]
            @ [Seconds (Sub (LastTransitionTime approved) (LastTransitionTime created))]
        \<and> samples (FleetUpdateRunApprovalRequestLatencySeconds m2)
            [ur_GetNamespace ur, ur_GetName ur, tt]
          = samples (FleetUpdateRunApprovalRequestLatencySeconds m)
              [ur_GetNamespace ur, ur_GetName ur, tt]
            @ [Seconds (Sub (LastTransitionTime approved) (LastTransitionTime created)),
               Seconds (Sub (LastTransitionTime approved) (LastTransitionTime created))]))"
proof (intro allI impI)
  fix created approved
  assume "FindStatusCondition (st_Conditions sts) StageTaskConditionApprovalRequestCreated = Some created
    \<and> FindStatusCondition (st_Conditions sts) StageTaskConditionApprovalRequestApproved = Some approved
    \<and> Status created = ConditionTrue \<and> ObservedGeneration created = ur_GetGeneration ur
    \<and> Status approved = ConditionTrue \<and> ObservedGeneration approved = ur_GetGeneration ur
    \<and> list_all ValidString [ur_GetNamespace ur, ur_GetName ur, tt]"
  then have h: "FindStatusCondition (st_Conditions sts) StageTaskConditionApprovalRequestCreated = Some created"
       "FindStatusCondition (st_Conditions sts) StageTaskConditionApprovalRequestApproved = Some approved"
       "Status created = ConditionTrue" "ObservedGeneration created = ur_GetGeneration ur"
       "Status approved = ConditionTrue" "ObservedGeneration approved = ur_GetGeneration ur"
       "list_all ValidString [ur_GetNamespace ur, ur_GetName ur, tt]"
    by simp_all
  let ?k = "[ur_GetNamespace ur, ur_GetName ur, tt]"
  let ?v = "Seconds (Sub (LastTransitionTime approved) (LastTransitionTime created))"
  let ?m1 = "m\<lparr>FleetUpdateRunApprovalRequestLatencySeconds :=
          (FleetUpdateRunApprovalRequestLatencySeconds m)
            (?k \<mapsto> samples (FleetUpdateRunApprovalRequestLatencySeconds m) ?k @ [?v])\<rparr>"
  let ?m2 = "?m1\<lparr>FleetUpdateRunApprovalRequestLatencySeconds :=
          (FleetUpdateRunApprovalRequestLatencySeconds ?m1)
            (?k \<mapsto> samples (FleetUpdateRunApprovalRequestLatencySeconds ?m1) ?k @ [?v])\<rparr>"
  have r1: "recordApprovalRequestLatency sts ur tt m = Some ?m1"
    by (rule recordApprovalRequestLatency_open [OF h])
  have r2: "recordApprovalRequestLatency sts ur tt ?m1 = Some ?m2"
    by (rule recordApprovalRequestLatency_open [OF h])
  have s1: "samples (FleetUpdateRunApprovalRequestLatencySeconds ?m1) ?k
      = samples (FleetUpdateRunApprovalRequestLatencySeconds m) ?k @ [?v]"
    by (simp add: samples_def)
  have s2: "samples (FleetUpdateRunApprovalRequestLatencySeconds ?m2) ?k
      = samples (FleetUpdateRunApprovalRequestLatencySeconds m) ?k @ [?v, ?v]"
    by (simp add: samples_def)
  from r1 r2 s1 s2 show "\<exists>m1 m2.
          recordApprovalRequestLatency sts ur tt m = Some m1
        \<and> recordApprovalRequestLatency sts ur tt m1 = Some m2
        \<and> samples (FleetUpdateRunApprovalRequestLatencySeconds m1) ?k
          = samples (FleetUpdateRunApprovalRequestLatencySeconds m) ?k @ [?v]
        \<and> samples (FleetUpdateRunApprovalRequestLatencySeconds m2) ?k
          = samples (FleetUpdateRunApprovalRequestLatencySeconds m) ?k @ [?v, ?v]"
    by blast
qed

theorem recordApprovalRequestLatency_every_call_witness:
  "\<exists>m1 m2.
      list_all ValidString [''ns-1'', ''run-1'', ''Approval'']
    \<and> recordApprovalRequestLatency approved_task (test_update_run ''run-1'' 1 []) ''Approval''
        no_metrics = Some m1
    \<and> recordApprovalRequestLatency approved_task (test_update_run ''run-1'' 1 []) ''Approval''
        m1 = Some m2
    \<and> samples (FleetUpdateRunApprovalRequestLatencySeconds m1) [''ns-1'', ''run-1'', ''Approval'']
        = [90]
    \<and> samples (FleetUpdateRunApprovalRequestLatencySeconds m2) [''ns-1'', ''run-1'', ''Approval'']
        = [90, 90]"
  using recordApprovalRequestLatency_every_call [of approved_task
      "test_update_run ''run-1'' 1 []" "''Approval''" no_metrics]
  by (simp add: run_defs cond_type_defs ur_defs samples_def Sub_test Seconds_test
      test_labels_valid)

text \<open>
  A task approved 90 seconds after its request was created, recorded twice in a row
  without any change to the task or the run: the histogram holds two samples.
\<close>

theorem recordApprovalRequestLatency_repeat_counterexample:
  "recordApprovalRequestLatency approved_task (test_update_run ''run-1'' 1 []) ''Approval'' no_metrics
     = Some (latency_metrics [90])
   \<and> recordApprovalRequestLatency approved_task (test_update_run ''run-1'' 1 []) ''Approval''
       (latency_metrics [90])
     = Some (latency_metrics [90, 90])
   \<and> latency_metrics [90, 90] \<noteq> latency_metrics [90]"
proof -
  have a: "recordApprovalRequestLatency approved_task (test_update_run ''run-1'' 1 []) ''Approval'' no_metrics
     = Some (latency_metrics [90])"
    by (simp add: recordApprovalRequestLatency_def IsConditionStatusTrue_def Let_def
        WithLabelValues_Observe_def validateLabelValues_def test_labels_valid
        FleetUpdateRunApprovalRequestLatencySeconds_labels_def
        samples_def run_defs cond_type_defs ur_defs Sub_test Seconds_test)
  have b: "recordApprovalRequestLatency approved_task (test_update_run ''run-1'' 1 []) ''Approval''
       (latency_metrics [90]) = Some (latency_metrics [90, 90])"
    using recordApprovalRequestLatency_approved_task [of "[90]"] by simp
  have c: "latency_metrics [90, 90] \<noteq> latency_metrics [90]"
  proof
    assume "latency_metrics [90, 90] = latency_metrics [90]"
    then have "FleetUpdateRunApprovalRequestLatencySeconds (latency_metrics [90, 90])
                 [''ns-1'', ''run-1'', ''Approval'']
             = FleetUpdateRunApprovalRequestLatencySeconds (latency_metrics [90])
                 [''ns-1'', ''run-1'', ''Approval'']"
      by simp
    then show False by (simp add: latency_metrics_def)
  qed
  from a b c show ?thesis by simp
qed

section \<open>Update run metrics: status, cleanup, stage duration\<close>

text \<open>
  C5, as amended. \<open>emitUpdateRunStatusMetric\<close> reports the first condition, in the
  order Succeeded, Progressing, Initialized, that is present and carries the run's
  current generation, whatever its status is; the status and the reason of that
  condition are label values of the series it sets to the current time. When none of the
  three is present at the current generation the metric state is unchanged. With
  only true conditions reported, as the property was first put, it fails: the failed run
  further down shows it.
\<close>

theorem emitUpdateRunStatusMetric_priority:
  "(\<forall>c. FindStatusCondition (ur_Conditions ur) StagedUpdateRunConditionSucceeded = Some c
        \<and> ObservedGeneration c = ur_GetGeneration ur \<longrightarrow>
      emitUpdateRunStatusMetric now ur m =
        Some (m\<lparr>FleetUpdateRunStatusLastTimestampSeconds :=
                 (FleetUpdateRunStatusLastTimestampSeconds m)
                   (statusSeries ur StagedUpdateRunConditionSucceeded c \<mapsto> Seconds now)\<rparr>))
   \<and> (\<forall>c. \<not> (\<exists>s. FindStatusCondition (ur_Conditions ur) StagedUpdateRunConditionSucceeded = Some s
                  \<and> ObservedGeneration s = ur_GetGeneration ur)
        \<and> FindStatusCondition (ur_Conditions ur) StagedUpdateRunConditionProgressing = Some c
        \<and> ObservedGeneration c = ur_GetGeneration ur \<longrightarrow>
      emitUpdateRunStatusMetric now ur m =
        Some (m\<lparr>FleetUpdateRunStatusLastTimestampSeconds :=
                 (FleetUpdateRunStatusLastTimestampSeconds m)
                   (statusSeries ur StagedUpdateRunConditionProgressing c \<mapsto> Seconds now)\<rparr>))
   \<and> (\<forall>c. \<not> (\<exists>s. FindStatusCondition (ur_Conditions ur) StagedUpdateRunConditionSucceeded = Some s
                  \<and> ObservedGeneration s = ur_GetGeneration ur)
        \<and> \<not> (\<exists>s. FindStatusCondition (ur_Conditions ur) StagedUpdateRunConditionProgressing = Some s
                  \<and> ObservedGeneration s = ur_GetGeneration ur)
        \<and> FindStatusCondition (ur_Conditions ur) StagedUpdateRunConditionInitialized = Some c
        \<and> ObservedGeneration c = ur_GetGeneration ur \<longrightarrow>
      emitUpdateRunStatusMetric now ur m =
        Some (m\<lparr>FleetUpdateRunStatusLastTimestampSeconds :=
                 (FleetUpdateRunStatusLastTimestampSeconds m)
                   (statusSeries ur StagedUpdateRunConditionInitialized c \<mapsto> Seconds now)\<rparr>))
   \<and> (\<not> (\<exists>s. FindStatusCondition (ur_Conditions ur) StagedUpdateRunConditionSucceeded = Some s
                  \<and> ObservedGeneration s = ur_GetGeneration ur)
        \<and> \<not> (\<exists>s. FindStatusCondition (ur_Conditions ur) StagedUpdateRunConditionProgressing = Some s
                  \<and> ObservedGeneration s = ur_GetGeneration ur)
        \<and> \<not> (\<exists>s. FindStatusCondition (ur_Conditions ur) StagedUpdateRunConditionInitialized = Some s
                  \<and> ObservedGeneration s = ur_GetGeneration ur) \<longrightarrow>
      emitUpdateRunStatusMetric now ur m = Some m)"
  using emit_Succeeded [of ur _ now m] emit_Progressing [of ur _ now m]
    emit_Initialized [of ur _ now m] emit_none [of ur now m]
  by blast

theorem emitUpdateRunStatusMetric_priority_witness:
  "emitUpdateRunStatusMetric (60 * Second) failed_run no_metrics =
     Some (status_metrics
        [''ns-1'', ''run-1'', ''Run'', ''Succeeded'', ''False'', ''UpdateRunFailed''] 60)
   \<and> emitUpdateRunStatusMetric (60 * Second) progressing_run no_metrics =
     Some (status_metrics
        [''ns-1'', ''run-1'', ''Run'', ''Progressing'', ''True'', ''UpdateRunProgressing''] 60)
   \<and> emitUpdateRunStatusMetric (60 * Second) stale_run no_metrics = Some no_metrics"
  using emitUpdateRunStatusMetric_priority [of failed_run "60 * Second" no_metrics]
    emitUpdateRunStatusMetric_priority [of progressing_run "60 * Second" no_metrics]
    emitUpdateRunStatusMetric_priority [of stale_run "60 * Second" no_metrics]
  by (simp add: statusSeries_def run_defs cond_type_defs ur_defs Seconds_minute)

text \<open>
  A run that failed at generation 1: Initialized is true, Progressing and Succeeded are
  false, all three at generation 1. The emitter reports Succeeded with status False;
  the first true condition in the priority order is Initialized.
\<close>

theorem emitUpdateRunStatusMetric_reports_false_counterexample:
  "emitUpdateRunStatusMetric (60 * Second) failed_run no_metrics =
     Some (status_metrics
        [''ns-1'', ''run-1'', ''Run'', ''Succeeded'', ''False'', ''UpdateRunFailed''] 60)
   \<and> spec_emitUpdateRunStatusMetric (60 * Second) failed_run no_metrics =
     Some (status_metrics
        [''ns-1'', ''run-1'', ''Run'', ''Initialized'', ''True'',
         ''UpdateRunInitializedSuccessfully''] 60)
   \<and> emitUpdateRunStatusMetric (60 * Second) failed_run no_metrics
       \<noteq> spec_emitUpdateRunStatusMetric (60 * Second) failed_run no_metrics"
proof -
  have a: "emitUpdateRunStatusMetric (60 * Second) failed_run no_metrics =
     Some (status_metrics
        [''ns-1'', ''run-1'', ''Run'', ''Succeeded'', ''False'', ''UpdateRunFailed''] 60)"
    by (simp add: emitUpdateRunStatusMetric_def Let_def WithLabelValues_SetToCurrentTime_def
        FleetUpdateRunStatusLastTimestampSeconds_labels_def
        run_defs cond_type_defs ur_defs Seconds_minute)
  have b: "spec_emitUpdateRunStatusMetric (60 * Second) failed_run no_metrics =
     Some (status_metrics
        [''ns-1'', ''run-1'', ''Run'', ''Initialized'', ''True'',
         ''UpdateRunInitializedSuccessfully''] 60)"
    by (simp add: spec_emitUpdateRunStatusMetric_def statusSeries_def
        run_defs cond_type_defs ur_defs Seconds_minute)
  have c: "status_metrics
        [''ns-1'', ''run-1'', ''Run'', ''Succeeded'', ''False'', ''UpdateRunFailed''] 60
      \<noteq> status_metrics
        [''ns-1'', ''run-1'', ''Run'', ''Initialized'', ''True'',
         ''UpdateRunInitializedSuccessfully''] 60"
  proof
    assume "status_metrics
        [''ns-1'', ''run-1'', ''Run'', ''Succeeded'', ''False'', ''UpdateRunFailed''] 60
      = status_metrics
        [''ns-1'', ''run-1'', ''Run'', ''Initialized'', ''True'',
         ''UpdateRunInitializedSuccessfully''] 60"
    then have "FleetUpdateRunStatusLastTimestampSeconds (status_metrics
        [''ns-1'', ''run-1'', ''Run'', ''Succeeded'', ''False'', ''UpdateRunFailed''] 60)
          [''ns-1'', ''run-1'', ''Run'', ''Succeeded'', ''False'', ''UpdateRunFailed'']
      = FleetUpdateRunStatusLastTimestampSeconds (status_metrics
        [''ns-1'', ''run-1'', ''Run'', ''Initialized'', ''True'',
         ''UpdateRunInitializedSuccessfully''] 60)
          [''ns-1'', ''run-1'', ''Run'', ''Succeeded'', ''False'', ''UpdateRunFailed'']"
      by simp
    then show False by (simp add: status_metrics_def)
  qed
  from a b c show ?thesis by simp
qed



text \<open>
  C8. \<open>recordStageClusterUpdatingDuration\<close> adds a sample exactly when the stage
  status has a start time and the run's namespace and name are valid UTF-8: without a
  start time the metric state is returned unchanged; with one, exactly one sample is
  added to the series of the run's namespace and name, and its value is the time from
  the start time to the clock reading at the call, in seconds (as \<open>time.Since\<close>
  computes it). With a start time and a namespace or name that is not valid UTF-8 the
  call panics and nothing is recorded.
\<close>

theorem recordStageClusterUpdatingDuration_start_time:
  "(StartTime stageStatus = None \<longrightarrow>
      recordStageClusterUpdatingDuration now stageStatus ur m = Some m)
   \<and> (\<forall>startTime. StartTime stageStatus = Some startTime
        \<and> list_all ValidString [ur_GetNamespace ur, ur_GetName ur] \<longrightarrow>
      recordStageClusterUpdatingDuration now stageStatus ur m =
        Some (m\<lparr>FleetUpdateRunStageClusterUpdatingDurationSeconds :=
                 (FleetUpdateRunStageClusterUpdatingDurationSeconds m)
                   ([ur_GetNamespace ur, ur_GetName ur] \<mapsto>
                      samples (FleetUpdateRunStageClusterUpdatingDurationSeconds m)
                        [ur_GetNamespace ur, ur_GetName ur]
                      @ [Seconds (Sub now startTime)])\<rparr>))
   \<and> (StartTime stageStatus \<noteq> None
        \<and> \<not> list_all ValidString [ur_GetNamespace ur, ur_GetName ur] \<longrightarrow>
      recordStageClusterUpdatingDuration now stageStatus ur m = None)
   \<and> ((\<exists>m'. recordStageClusterUpdatingDuration now stageStatus ur m = Some m' \<and> m' \<noteq> m)
        \<longleftrightarrow> StartTime stageStatus \<noteq> None
            \<and> list_all ValidString [ur_GetNamespace ur, ur_GetName ur])
   \<and> (recordStageClusterUpdatingDuration now stageStatus ur m \<noteq> Some m
        \<longleftrightarrow> StartTime stageStatus \<noteq> None)"
proof (cases "StartTime stageStatus")
  case None
  then show ?thesis by (simp add: recordStageClusterUpdatingDuration_def)
next
  case (Some startTime)
  show ?thesis
  proof (cases "list_all ValidString [ur_GetNamespace ur, ur_GetName ur]")
    case True
    have r: "recordStageClusterUpdatingDuration now stageStatus ur m =
        Some (m\<lparr>FleetUpdateRunStageClusterUpdatingDurationSeconds :=
                 (FleetUpdateRunStageClusterUpdatingDurationSeconds m)
                   ([ur_GetNamespace ur, ur_GetName ur] \<mapsto>
                      samples (FleetUpdateRunStageClusterUpdatingDurationSeconds m)
                        [ur_GetNamespace ur, ur_GetName ur]
                      @ [Seconds (Sub now startTime)])\<rparr>)"
      using Some True
      by (simp add: recordStageClusterUpdatingDuration_def Let_def WithLabelValues_Observe_def
          validateLabelValues_def FleetUpdateRunStageClusterUpdatingDurationSeconds_labels_def)
    have "recordStageClusterUpdatingDuration now stageStatus ur m \<noteq> Some m"
      unfolding r using stage_update_changes by simp
    with Some True r show ?thesis by simp
  next
    case False
    have r: "recordStageClusterUpdatingDuration now stageStatus ur m = None"
      using Some False
      by (simp add: recordStageClusterUpdatingDuration_def Let_def WithLabelValues_Observe_def
          validateLabelValues_def FleetUpdateRunStageClusterUpdatingDurationSeconds_labels_def)
    with Some False show ?thesis by simp
  qed
qed

theorem recordStageClusterUpdatingDuration_start_time_witness:
  "recordStageClusterUpdatingDuration (190 * Second) \<lparr>StartTime = None\<rparr>
     (test_update_run ''run-1'' 1 []) no_metrics = Some no_metrics
   \<and> list_all ValidString [''ns-1'', ''run-1'']
   \<and> recordStageClusterUpdatingDuration (190 * Second) \<lparr>StartTime = Some (100 * Second)\<rparr>
     (test_update_run ''run-1'' 1 []) no_metrics = Some (stage_metrics [90])
   \<and> recordStageClusterUpdatingDuration (190 * Second) \<lparr>StartTime = Some (100 * Second)\<rparr>
     (test_update_run ''run-1'' 1 []) no_metrics \<noteq> Some no_metrics
   \<and> \<not> list_all ValidString [''ns-1'', [CHR 0xFF]]
   \<and> recordStageClusterUpdatingDuration (190 * Second) \<lparr>StartTime = Some (100 * Second)\<rparr>
     (test_update_run [CHR 0xFF] 1 []) no_metrics = None"
  using recordStageClusterUpdatingDuration_start_time [of "\<lparr>StartTime = None\<rparr>"
      "190 * Second" "test_update_run ''run-1'' 1 []" no_metrics]
    recordStageClusterUpdatingDuration_start_time [of "\<lparr>StartTime = Some (100 * Second)\<rparr>"
      "190 * Second" "test_update_run ''run-1'' 1 []" no_metrics]
    recordStageClusterUpdatingDuration_start_time [of "\<lparr>StartTime = Some (100 * Second)\<rparr>"
      "190 * Second" "test_update_run [CHR 0xFF] 1 []" no_metrics]
  by (simp add: run_defs ur_defs samples_def Sub_test Seconds_test
      test_labels_valid byte_FF_invalid)

section \<open>Hub agent options\<close>

text \<open>
  C7. For every input string, \<open>Set\<close> of the work-pending grace period flag returns
  \<open>nil\<close> and stores 15 seconds; on the field as the flag's constructor leaves it with
  the default of 15 seconds, \<open>Set\<close> changes nothing, whatever the input.
\<close>

theorem WorkPendingGracePeriod_Set_no_effect:
  "fst (WorkPendingGracePeriodValueWithValidation_Set s v) = None
   \<and> Duration (snd (WorkPendingGracePeriodValueWithValidation_Set s v)) = 15 * Second
   \<and> WorkPendingGracePeriodValueWithValidation_Set s
        (newWorkPendingGracePeriodValueWithValidation (15 * Second) p)
      = (None, newWorkPendingGracePeriodValueWithValidation (15 * Second) p)"
  by (simp add: WorkPendingGracePeriodValueWithValidation_Set_def
      newWorkPendingGracePeriodValueWithValidation_def)

theorem WorkPendingGracePeriod_Set_no_effect_witness:
  "WorkPendingGracePeriodValueWithValidation_Set ''30s''
     (newWorkPendingGracePeriodValueWithValidation (15 * Second) \<lparr>Duration = 0\<rparr>)
   = (None, \<lparr>Duration = 15000000000\<rparr>)
   \<and> WorkPendingGracePeriodValueWithValidation_Set ''not a duration''
     (newWorkPendingGracePeriodValueWithValidation (15 * Second) \<lparr>Duration = 0\<rparr>)
   = (None, \<lparr>Duration = 15000000000\<rparr>)"
  using WorkPendingGracePeriod_Set_no_effect [of "''30s''" _ "\<lparr>Duration = 0\<rparr>"]
    WorkPendingGracePeriod_Set_no_effect [of "''not a duration''" _ "\<lparr>Duration = 0\<rparr>"]
  by (simp add: newWorkPendingGracePeriodValueWithValidation_def Second_def)

text \<open>
  C9, as amended. \<open>DefaultControllerRateLimiter\<close> makes no range check, and it builds
  the rate limiter from the four supplied values unchanged whenever all four are
  positive and the QPS is at most \<open>2 ^ 53\<close>; a base delay, max delay, QPS or bucket size
  that is zero or negative is replaced by its default (5 milliseconds, 60 seconds, 10,
  100) before the limiter is built, and the QPS is converted to \<open>float64\<close>, which
  rounds it above \<open>2 ^ 53\<close>. For every input, as the property was first put, it fails:
  the all-zero options further down show it.
\<close>

theorem DefaultControllerRateLimiter_positive_unchanged:
  "DefaultControllerRateLimiter opts =
     MaxOfRateLimiter
       [ItemExponentialFailureRateLimiter
          (if RateLimiterBaseDelay opts \<le> 0 then 5 * Millisecond else RateLimiterBaseDelay opts)
          (if RateLimiterMaxDelay opts \<le> 0 then 60 * Second else RateLimiterMaxDelay opts),
        BucketRateLimiter
          (float64_of_int (if RateLimiterQPS opts \<le> 0 then 10 else RateLimiterQPS opts))
          (if RateLimiterBucketSize opts \<le> 0 then 100 else RateLimiterBucketSize opts)]
   \<and> (0 < RateLimiterBaseDelay opts \<and> 0 < RateLimiterMaxDelay opts
        \<and> 0 < RateLimiterQPS opts \<and> RateLimiterQPS opts \<le> 2 ^ 53
        \<and> 0 < RateLimiterBucketSize opts \<longrightarrow>
      DefaultControllerRateLimiter opts =
        MaxOfRateLimiter
          [ItemExponentialFailureRateLimiter (RateLimiterBaseDelay opts) (RateLimiterMaxDelay opts),
           BucketRateLimiter (real_of_int (RateLimiterQPS opts)) (RateLimiterBucketSize opts)])"
  by (simp add: DefaultControllerRateLimiter_def Let_def float64_of_int_exact)

theorem DefaultControllerRateLimiter_positive_unchanged_witness:
  "(0::int) < 200 * Millisecond \<and> (0::int) < 1 * Second \<and> (1000::int) \<le> 2 ^ 53
   \<and> DefaultControllerRateLimiter
       \<lparr>RateLimiterBaseDelay = 200 * Millisecond, RateLimiterMaxDelay = 1 * Second,
        RateLimiterQPS = 1000, RateLimiterBucketSize = 1\<rparr>
     = MaxOfRateLimiter [ItemExponentialFailureRateLimiter 200000000 1000000000,
                         BucketRateLimiter 1000 1]
   \<and> DefaultControllerRateLimiter
       \<lparr>RateLimiterBaseDelay = 200 * Millisecond, RateLimiterMaxDelay = 1 * Second,
        RateLimiterQPS = 9007199254740993, RateLimiterBucketSize = 1\<rparr>
     = MaxOfRateLimiter [ItemExponentialFailureRateLimiter 200000000 1000000000,
                         BucketRateLimiter 9007199254740992 1]"
  using DefaultControllerRateLimiter_positive_unchanged
    [of "\<lparr>RateLimiterBaseDelay = 200 * Millisecond, RateLimiterMaxDelay = 1 * Second,
        RateLimiterQPS = 1000, RateLimiterBucketSize = 1\<rparr>"]
    DefaultControllerRateLimiter_positive_unchanged
    [of "\<lparr>RateLimiterBaseDelay = 200 * Millisecond, RateLimiterMaxDelay = 1 * Second,
        RateLimiterQPS = 9007199254740993, RateLimiterBucketSize = 1\<rparr>"]
  by (simp add: Millisecond_def Second_def float64_of_int_rounds float64_of_int_exact)

text \<open>
  Options with all four fields zero: the limiter is built from the defaults, not from
  the supplied zeros.
\<close>

theorem DefaultControllerRateLimiter_zero_counterexample:
  "DefaultControllerRateLimiter
     \<lparr>RateLimiterBaseDelay = 0, RateLimiterMaxDelay = 0, RateLimiterQPS = 0,
      RateLimiterBucketSize = 0\<rparr>
   = MaxOfRateLimiter [ItemExponentialFailureRateLimiter 5000000 60000000000,
                       BucketRateLimiter 10 100]
   \<and> DefaultControllerRateLimiter
     \<lparr>RateLimiterBaseDelay = 0, RateLimiterMaxDelay = 0, RateLimiterQPS = 0,
      RateLimiterBucketSize = 0\<rparr>
   \<noteq> MaxOfRateLimiter [ItemExponentialFailureRateLimiter 0 0, BucketRateLimiter 0 0]"
  by (simp add: DefaultControllerRateLimiter_def Let_def Millisecond_def Second_def
      float64_of_int_exact)

text \<open>
  C10. \<open>Validate\<close> treats the two rate limiter bounds differently at equality: an
  error for the base delay is among its errors exactly when the base delay is greater
  than or equal to the max delay, an error for the QPS exactly when the QPS is strictly
  greater than the bucket size. With the QPS equal to the bucket size no QPS error is
  reported, although the detail of that error, when it is reported, says that the QPS
  must be less than the bucket size.
\<close>

theorem Validate_rate_limiter_bounds:
  "((\<exists>e \<in> set (Validate opts). Field e = RateLimiterBaseDelay_path) \<longleftrightarrow>
      RateLimiterBaseDelay (PlacementControllerWorkQueueRateLimiterOpts (PlacementMgmtOpts opts))
        \<ge> RateLimiterMaxDelay (PlacementControllerWorkQueueRateLimiterOpts (PlacementMgmtOpts opts)))
   \<and> ((\<exists>e \<in> set (Validate opts). Field e = RateLimiterQPS_path) \<longleftrightarrow>
      RateLimiterQPS (PlacementControllerWorkQueueRateLimiterOpts (PlacementMgmtOpts opts))
        > RateLimiterBucketSize (PlacementControllerWorkQueueRateLimiterOpts (PlacementMgmtOpts opts)))
   \<and> (RateLimiterQPS (PlacementControllerWorkQueueRateLimiterOpts (PlacementMgmtOpts opts))
        = RateLimiterBucketSize (PlacementControllerWorkQueueRateLimiterOpts (PlacementMgmtOpts opts))
      \<longrightarrow> \<not> (\<exists>e \<in> set (Validate opts). Field e = RateLimiterQPS_path))
   \<and> (\<forall>e \<in> set (Validate opts). Field e = RateLimiterQPS_path \<longrightarrow>
        Detail e = ''the QPS for the placement controller set rate limiter must be less than its bucket size'')"
proof (intro conjI)
  show "(\<exists>e \<in> set (Validate opts). Field e = RateLimiterBaseDelay_path) \<longleftrightarrow>
      RateLimiterBaseDelay (PlacementControllerWorkQueueRateLimiterOpts (PlacementMgmtOpts opts))
        \<ge> RateLimiterMaxDelay (PlacementControllerWorkQueueRateLimiterOpts (PlacementMgmtOpts opts))"
    by (rule Validate_BaseDelay_iff)
  show "(\<exists>e \<in> set (Validate opts). Field e = RateLimiterQPS_path) \<longleftrightarrow>
      RateLimiterQPS (PlacementControllerWorkQueueRateLimiterOpts (PlacementMgmtOpts opts))
        > RateLimiterBucketSize (PlacementControllerWorkQueueRateLimiterOpts (PlacementMgmtOpts opts))"
    by (rule Validate_QPS_iff)
  show "RateLimiterQPS (PlacementControllerWorkQueueRateLimiterOpts (PlacementMgmtOpts opts))
        = RateLimiterBucketSize (PlacementControllerWorkQueueRateLimiterOpts (PlacementMgmtOpts opts))
      \<longrightarrow> \<not> (\<exists>e \<in> set (Validate opts). Field e = RateLimiterQPS_path)"
    unfolding Validate_QPS_iff by simp
  show "\<forall>e \<in> set (Validate opts). Field e = RateLimiterQPS_path \<longrightarrow>
        Detail e = ''the QPS for the placement controller set rate limiter must be less than its bucket size''"
    by (rule Validate_QPS_detail)
qed

theorem Validate_rate_limiter_bounds_witness:
  "Validate (withRateLimitOptions
       \<lparr>RateLimiterBaseDelay = 5 * Millisecond, RateLimiterMaxDelay = 60 * Second,
        RateLimiterQPS = 100, RateLimiterBucketSize = 100\<rparr> newTestOptions) = []
   \<and> Validate (withRateLimitOptions
       \<lparr>RateLimiterBaseDelay = 60 * Second, RateLimiterMaxDelay = 60 * Second,
        RateLimiterQPS = 10, RateLimiterBucketSize = 100\<rparr> newTestOptions)
     = [Invalid RateLimiterBaseDelay_path (DurationValue (60 * Second))
          ''the base delay for the placement controller set rate limiter must be less than its max delay'']
   \<and> Validate (withRateLimitOptions
       \<lparr>RateLimiterBaseDelay = 5 * Millisecond, RateLimiterMaxDelay = 60 * Second,
        RateLimiterQPS = 100, RateLimiterBucketSize = 10\<rparr> newTestOptions)
     = [Invalid RateLimiterQPS_path (IntValue 100)
          ''the QPS for the placement controller set rate limiter must be less than its bucket size'']"
  using
    Validate_rate_limiter_bounds [of "withRateLimitOptions
       \<lparr>RateLimiterBaseDelay = 5 * Millisecond, RateLimiterMaxDelay = 60 * Second,
        RateLimiterQPS = 100, RateLimiterBucketSize = 100\<rparr> newTestOptions"]
    Validate_rate_limiter_bounds [of "withRateLimitOptions
       \<lparr>RateLimiterBaseDelay = 60 * Second, RateLimiterMaxDelay = 60 * Second,
        RateLimiterQPS = 10, RateLimiterBucketSize = 100\<rparr> newTestOptions"]
    Validate_rate_limiter_bounds [of "withRateLimitOptions
       \<lparr>RateLimiterBaseDelay = 5 * Millisecond, RateLimiterMaxDelay = 60 * Second,
        RateLimiterQPS = 100, RateLimiterBucketSize = 10\<rparr> newTestOptions"]
  by (simp add: Validate_append rl_of_withRateLimitOptions newTestOptions_fields paths
      Millisecond_def Second_def)

end
